theory Spec2Isabelle
  imports Complex_Main "HOL-Library.Sublist" "HOL-Library.AList" "HOL-Library.Multiset"
begin

section \<open>Values exchanged with the exchange's REST API\<close>

text \<open>
  The program (\<^verbatim>\<open>delta_exc_data.py\<close>) reads JSON over HTTP with \<^verbatim>\<open>requests\<close> and post-processes
  it with \<^verbatim>\<open>pandas\<close>. A parsed JSON document is a \<open>jval\<close>: \<open>JObj\<close> holds the items of the Python
  dict that \<^verbatim>\<open>json.loads\<close> built (keys are distinct there; the model looks a key up with
  \<open>map_of\<close>). JSON numbers are modelled as Python \<^verbatim>\<open>int\<close>s; a JSON number with a fraction or an
  exponent is a Python float and is outside the model.
\<close>

datatype jval =
    JNull
  | JBool bool
  | JInt int
  | JStr string
  | JList "jval list"
  | JObj "(string \<times> jval) list"

text \<open>The exceptions the program can meet. All of them derive from Python's \<^verbatim>\<open>Exception\<close>;
  \<open>RequestException\<close> stands for \<^verbatim>\<open>requests.exceptions.RequestException\<close> and its subclasses.\<close>

datatype request_failure = ConnectionError | Timeout | HTTPError | JSONDecodeError

datatype py_exc =
    RequestException request_failure
  | TypeError
  | KeyError
  | AttributeError
  | ValueError
  | OverflowError
  | OutOfBoundsDatetime
  | EOFError

fun is_RequestException :: "py_exc \<Rightarrow> bool" where
  "is_RequestException (RequestException _) = True"
| "is_RequestException _ = False"

text \<open>What one \<^verbatim>\<open>requests.get(url, timeout=10)\<close> comes back with: the call raises (no connection,
  timeout), or it returns a response with a status code and a body; \<open>body = None\<close> is a body that
  is not JSON, on which \<^verbatim>\<open>response.json()\<close> raises.\<close>

datatype http_outcome =
    Failed request_failure
  | Response (status: nat) (body: "jval option")

text \<open>\<^verbatim>\<open>response = requests.get(...); response.raise_for_status(); response.json()\<close>.
  \<^verbatim>\<open>raise_for_status\<close> raises for the client and server error codes, 400 to 599.\<close>

definition raise_for_status :: "nat \<Rightarrow> py_exc + unit" where
  "raise_for_status st = (if 400 \<le> st \<and> st < 600 then Inl (RequestException HTTPError) else Inr ())"

definition response_json :: "http_outcome \<Rightarrow> py_exc + jval" where
  "response_json out =
     (case out of
        Failed f \<Rightarrow> Inl (RequestException f)
      | Response st b \<Rightarrow>
          (case raise_for_status st of
             Inl e \<Rightarrow> Inl e
           | Inr _ \<Rightarrow>
               (case b of
                  None \<Rightarrow> Inl (RequestException JSONDecodeError)
                | Some j \<Rightarrow> Inr j)))"

subsection \<open>Python operators on parsed JSON\<close>

fun is_substring :: "string \<Rightarrow> string \<Rightarrow> bool" where
  "is_substring xs [] = (xs = [])"
| "is_substring xs (y # ys) = (prefix xs (y # ys) \<or> is_substring xs ys)"

text \<open>\<^verbatim>\<open>key in obj\<close> for a string \<open>key\<close>: key membership on a dict, element membership on a list,
  substring test on a string, \<^verbatim>\<open>TypeError\<close> on \<^verbatim>\<open>None\<close>, booleans and numbers.\<close>

fun py_in :: "string \<Rightarrow> jval \<Rightarrow> py_exc + bool" where
  "py_in k (JObj d) = Inr (map_of d k \<noteq> None)"
| "py_in k (JList xs) = Inr (JStr k \<in> set xs)"
| "py_in k (JStr s) = Inr (is_substring k s)"
| "py_in k _ = Inl TypeError"

text \<open>\<^verbatim>\<open>obj[key]\<close> for a string \<open>key\<close>: \<^verbatim>\<open>KeyError\<close> on a dict without the key, \<^verbatim>\<open>TypeError\<close> on
  everything that is not a dict.\<close>

fun py_getitem :: "jval \<Rightarrow> string \<Rightarrow> py_exc + jval" where
  "py_getitem (JObj d) k = (case map_of d k of None \<Rightarrow> Inl KeyError | Some v \<Rightarrow> Inr v)"
| "py_getitem _ k = Inl TypeError"

fun is_list :: "jval \<Rightarrow> bool" where
  "is_list (JList _) = True"
| "is_list _ = False"

fun list_items :: "jval \<Rightarrow> jval list" where
  "list_items (JList xs) = xs"
| "list_items _ = []"

text \<open>The envelope check all three fetchers share:
  \<^verbatim>\<open>if 'result' in json_response and isinstance(json_response['result'], list)\<close>.
  \<open>Inr (Some xs)\<close> is the accepted list, \<open>Inr None\<close> the \<^verbatim>\<open>else\<close> branch.\<close>

definition result_list :: "jval \<Rightarrow> py_exc + jval list option" where
  "result_list json_response =
     (case py_in ''result'' json_response of
        Inl e \<Rightarrow> Inl e
      | Inr False \<Rightarrow> Inr None
      | Inr True \<Rightarrow>
          (case py_getitem json_response ''result'' of
             Inl e \<Rightarrow> Inl e
           | Inr r \<Rightarrow> if is_list r then Inr (Some (list_items r)) else Inr None))"

section \<open>HTTP fetchers\<close>

text \<open>The network is a parameter: \<open>http url\<close> is the outcome of the GET on \<open>url\<close>.\<close>

definition get_all_products_try :: "(string \<Rightarrow> http_outcome) \<Rightarrow> string \<Rightarrow> py_exc + jval list" where
  "get_all_products_try http base_url =
     (let endpoint = base_url @ ''/v2/products'' in
      case response_json (http endpoint) of
        Inl e \<Rightarrow> Inl e
      | Inr json_response \<Rightarrow>
          (case result_list json_response of
             Inl e \<Rightarrow> Inl e
           | Inr (Some products) \<Rightarrow> Inr products
           | Inr None \<Rightarrow> Inr []))"

text \<open>The \<^verbatim>\<open>try\<close> with its two handlers; what \<open>get_all_products\<close> hands to its caller is
  \<open>Inr\<close> a list, or \<open>Inl\<close> an exception that escaped.\<close>

definition get_all_products :: "(string \<Rightarrow> http_outcome) \<Rightarrow> string \<Rightarrow> py_exc + jval list" where
  "get_all_products http base_url =
     (case get_all_products_try http base_url of
        Inr products \<Rightarrow> Inr products
      | Inl e \<Rightarrow> if is_RequestException e then Inr [] else Inr [])"

definition get_all_tickers_try :: "(string \<Rightarrow> http_outcome) \<Rightarrow> string \<Rightarrow> py_exc + jval list" where
  "get_all_tickers_try http base_url =
     (let endpoint = base_url @ ''/v2/tickers'' in
      case response_json (http endpoint) of
        Inl e \<Rightarrow> Inl e
      | Inr json_response \<Rightarrow>
          (case result_list json_response of
             Inl e \<Rightarrow> Inl e
           | Inr (Some tickers) \<Rightarrow> Inr tickers
           | Inr None \<Rightarrow> Inr []))"

definition get_all_tickers :: "(string \<Rightarrow> http_outcome) \<Rightarrow> string \<Rightarrow> py_exc + jval list" where
  "get_all_tickers http base_url =
     (case get_all_tickers_try http base_url of
        Inr tickers \<Rightarrow> Inr tickers
      | Inl e \<Rightarrow> if is_RequestException e then Inr [] else Inr [])"

section \<open>Dates and times\<close>

text \<open>A \<^verbatim>\<open>datetime\<close> with \<^verbatim>\<open>tzinfo=timezone.utc\<close>, as the program builds and passes them. The
  fields are the constructor's arguments.\<close>

record datetime =
  year :: int
  month :: int
  day :: int
  hour :: int
  minute :: int
  second :: int
  microsecond :: int

text \<open>Python's proleptic Gregorian day count (\<^verbatim>\<open>_ymd2ord\<close>), relative to 1970-01-01.\<close>

definition is_leap :: "int \<Rightarrow> bool" where
  "is_leap y = (y mod 4 = 0 \<and> (y mod 100 \<noteq> 0 \<or> y mod 400 = 0))"

definition days_before_year :: "int \<Rightarrow> int" where
  "days_before_year y = (let y1 = y - 1 in y1 * 365 + y1 div 4 - y1 div 100 + y1 div 400)"

definition days_before_month :: "int \<Rightarrow> int \<Rightarrow> int" where
  "days_before_month y m =
     sum_list (take (nat (m - 1)) [31, 28, 31, 30, 31, 30, 31, 31, 30, 31, 30, 31])
       + (if m > 2 \<and> is_leap y then 1 else 0)"

definition ymd2ord :: "int \<Rightarrow> int \<Rightarrow> int \<Rightarrow> int" where
  "ymd2ord y m d = days_before_year y + days_before_month y m + d"

text \<open>Microseconds since 1970-01-01T00:00:00Z: the \<^verbatim>\<open>timedelta\<close> \<^verbatim>\<open>self - _EPOCH\<close>.\<close>

definition epoch_micros :: "datetime \<Rightarrow> int" where
  "epoch_micros dt =
     (((ymd2ord (year dt) (month dt) (day dt) - ymd2ord 1970 1 1) * 86400
        + hour dt * 3600 + minute dt * 60 + second dt) * 1000000) + microsecond dt"

text \<open>\<^verbatim>\<open>int(dt.timestamp())\<close>: the seconds since the epoch, truncated towards zero. The model
  divides exactly; Python divides in double precision, which gives the same integer for every
  date before the year 2242.\<close>

definition timestamp_int :: "datetime \<Rightarrow> int" where
  "timestamp_int dt =
     (let us = epoch_micros dt in
      if 0 \<le> us then us div 1000000 else - ((- us) div 1000000))"

text \<open>\<^verbatim>\<open>a > b\<close> on two UTC datetimes compares the fields in order.\<close>

definition dt_fields :: "datetime \<Rightarrow> int list" where
  "dt_fields dt = [year dt, month dt, day dt, hour dt, minute dt, second dt, microsecond dt]"

fun lex_less :: "int list \<Rightarrow> int list \<Rightarrow> bool" where
  "lex_less [] ys = (ys \<noteq> [])"
| "lex_less (x # xs) [] = False"
| "lex_less (x # xs) (y # ys) = (x < y \<or> (x = y \<and> lex_less xs ys))"

definition dt_greater :: "datetime \<Rightarrow> datetime \<Rightarrow> bool" where
  "dt_greater a b = lex_less (dt_fields b) (dt_fields a)"

text \<open>\<^verbatim>\<open>datetime.fromtimestamp(ts, tz=timezone.utc)\<close> raises outside the years 1 to 9999.\<close>

definition fromtimestamp_ok :: "int \<Rightarrow> bool" where
  "fromtimestamp_ok ts = (- 62135596800 \<le> ts \<and> ts \<le> 253402300799)"

section \<open>Pagination loop of \<^verbatim>\<open>get_ohlc_data_paginated\<close>\<close>

text \<open>The query parameters of one request to \<^verbatim>\<open>/v2/history/candles\<close>.\<close>

record candle_params =
  p_symbol :: string
  p_resolution :: string
  p_start :: int
  p_end :: int
  p_limit :: int

text \<open>The exchange is a parameter \<open>http\<close>: \<open>http k params\<close> is the outcome of the request with
  these parameters when \<open>k\<close> requests were made before it, so that the exchange may answer the same
  request differently over time.\<close>

type_synonym candle_api = "nat \<Rightarrow> candle_params \<Rightarrow> http_outcome"

text \<open>The variables the loop updates; \<open>requests_made\<close> counts the calls of \<^verbatim>\<open>requests.get\<close>.\<close>

record fetch_state =
  all_candles :: "jval list"
  current_chunk_start_timestamp :: int
  requests_made :: nat

datatype flow = Continue | Break

text \<open>Python numbers in a comparison or a sum with an \<^verbatim>\<open>int\<close>: \<^verbatim>\<open>bool\<close> is a subclass of
  \<^verbatim>\<open>int\<close>; strings, \<^verbatim>\<open>None\<close>, lists and dicts raise \<^verbatim>\<open>TypeError\<close>.\<close>

fun as_int :: "jval \<Rightarrow> py_exc + int" where
  "as_int (JInt i) = Inr i"
| "as_int (JBool b) = Inr (if b then 1 else 0)"
| "as_int _ = Inl TypeError"

definition py_ge :: "jval \<Rightarrow> int \<Rightarrow> py_exc + bool" where
  "py_ge v n = (case as_int v of Inl e \<Rightarrow> Inl e | Inr i \<Rightarrow> Inr (i \<ge> n))"

definition py_add :: "jval \<Rightarrow> int \<Rightarrow> py_exc + int" where
  "py_add v n = (case as_int v of Inl e \<Rightarrow> Inl e | Inr i \<Rightarrow> Inr (i + n))"

text \<open>The body of the \<^verbatim>\<open>try\<close> of one iteration (lines 155 to 199). It returns the variables as
  they are when the body is left, and how it is left: by an exception, by \<^verbatim>\<open>break\<close>, or by
  reaching its end.\<close>

definition chunk_try ::
  "candle_api \<Rightarrow> string \<Rightarrow> string \<Rightarrow> int \<Rightarrow> int \<Rightarrow> fetch_state \<Rightarrow> fetch_state \<times> (py_exc + flow)" where
  "chunk_try http symbol resolution overall_end_timestamp limit_per_request s =
     (if \<not> fromtimestamp_ok (current_chunk_start_timestamp s) then (s, Inl ValueError)
      else
        let params = \<lparr>p_symbol = symbol, p_resolution = resolution,
                       p_start = current_chunk_start_timestamp s,
                       p_end = overall_end_timestamp, p_limit = limit_per_request\<rparr>;
            response = http (requests_made s) params;
            s1 = s\<lparr>requests_made := Suc (requests_made s)\<rparr>
        in
        case response_json response of
          Inl e \<Rightarrow> (s1, Inl e)
        | Inr json_response \<Rightarrow>
            (case result_list json_response of
               Inl e \<Rightarrow> (s1, Inl e)
             | Inr None \<Rightarrow> (s1, Inr Break)
             | Inr (Some candles_page) \<Rightarrow>
                 if candles_page = [] then (s1, Inr Break)
                 else
                   let s2 = s1\<lparr>all_candles := all_candles s1 @ candles_page\<rparr> in
                   case py_getitem (last candles_page) ''time'' of
                     Inl e \<Rightarrow> (s2, Inl e)
                   | Inr last_candle_time \<Rightarrow>
                       (case py_ge last_candle_time overall_end_timestamp of
                          Inl e \<Rightarrow> (s2, Inl e)
                        | Inr True \<Rightarrow> (s2, Inr Break)
                        | Inr False \<Rightarrow>
                            (case py_add last_candle_time 1 of
                               Inl e \<Rightarrow> (s2, Inl e)
                             | Inr next_start \<Rightarrow>
                                 let s3 = s2\<lparr>current_chunk_start_timestamp := next_start\<rparr> in
                                 if int (length candles_page) < limit_per_request
                                 then (s3, Inr Break)
                                 else (s3, Inr Continue)))))"

text \<open>The \<^verbatim>\<open>while\<close> loop. Both \<^verbatim>\<open>except\<close> handlers \<^verbatim>\<open>break\<close>. The loop may run forever; then the
  value is \<open>None\<close>.\<close>

partial_function (option) pagination_loop ::
  "candle_api \<Rightarrow> string \<Rightarrow> string \<Rightarrow> int \<Rightarrow> int \<Rightarrow> fetch_state \<Rightarrow> fetch_state option" where
  "pagination_loop http symbol resolution overall_end_timestamp limit_per_request s =
     (if current_chunk_start_timestamp s \<le> overall_end_timestamp then
        (case chunk_try http symbol resolution overall_end_timestamp limit_per_request s of
           (s', Inr Continue) \<Rightarrow>
             pagination_loop http symbol resolution overall_end_timestamp limit_per_request s'
         | (s', Inr Break) \<Rightarrow> Some s'
         | (s', Inl e) \<Rightarrow> if is_RequestException e then Some s' else Some s')
      else Some s)"

declare pagination_loop.simps [code]

section \<open>Tables\<close>

text \<open>A \<^verbatim>\<open>pandas.DataFrame\<close>: its column labels in order, and its rows, each an association of
  every column label of the frame to a cell. A cell is missing (\<open>NaN\<close>), a Python object as parsed
  from JSON, a number (after \<^verbatim>\<open>pd.to_numeric\<close>), or a point in time (after \<^verbatim>\<open>pd.to_datetime\<close>:
  \<open>Timestamp n\<close> is \<open>n\<close> nanoseconds after the epoch, \<open>NaT\<close> is the missing time).\<close>

type_synonym dict = "(string \<times> jval) list"

datatype cell = NaN | Val jval | Num rat | Timestamp int | NaT

type_synonym row = "(string \<times> cell) list"

record frame =
  columns :: "string list"
  rows :: "row list"

text \<open>\<^verbatim>\<open>pd.DataFrame()\<close>: no columns, no rows.\<close>

definition empty_frame :: frame where
  "empty_frame = \<lparr>columns = [], rows = []\<rparr>"

definition cell_at :: "row \<Rightarrow> string \<Rightarrow> cell" where
  "cell_at r c = (case map_of r c of None \<Rightarrow> NaN | Some x \<Rightarrow> x)"

text \<open>The distinct elements of a list in the order of their first occurrence.\<close>

definition unique :: "'a list \<Rightarrow> 'a list" where
  "unique xs = rev (remdups (rev xs))"

text \<open>\<^verbatim>\<open>pd.DataFrame(list_of_dicts)\<close>: the columns are the keys in the order of their first
  appearance, and a row has \<open>NaN\<close> where its dict lacks the key.\<close>

definition DataFrame :: "dict list \<Rightarrow> frame" where
  "DataFrame ds =
     (let cols = unique (concat (map (map fst) ds)) in
      \<lparr>columns = cols,
       rows = map (\<lambda>d. map (\<lambda>c. (c, case map_of d c of None \<Rightarrow> NaN | Some v \<Rightarrow> Val v)) cols) ds\<rparr>)"

text \<open>\<^verbatim>\<open>df[c]\<close> raises \<^verbatim>\<open>KeyError\<close> when the frame has no column \<open>c\<close>.\<close>

definition get_column :: "frame \<Rightarrow> string \<Rightarrow> py_exc + cell list" where
  "get_column df c =
     (if c \<in> set (columns df) then Inr (map (\<lambda>r. cell_at r c) (rows df)) else Inl KeyError)"

text \<open>\<^verbatim>\<open>df[c] = values\<close>, for as many values as the frame has rows.\<close>

definition set_column :: "frame \<Rightarrow> string \<Rightarrow> cell list \<Rightarrow> frame" where
  "set_column df c vals =
     \<lparr>columns = (if c \<in> set (columns df) then columns df else columns df @ [c]),
      rows = map (\<lambda>(r, v). AList.update c v r) (zip (rows df) vals)\<rparr>"

text \<open>\<^verbatim>\<open>df[[c1, ..., cn]]\<close> raises \<^verbatim>\<open>KeyError\<close> when one of the labels is not a column.\<close>

definition select_columns :: "frame \<Rightarrow> string list \<Rightarrow> py_exc + frame" where
  "select_columns df cs =
     (if \<forall>c \<in> set cs. c \<in> set (columns df)
      then Inr \<lparr>columns = cs, rows = map (\<lambda>r. map (\<lambda>c. (c, cell_at r c)) cs) (rows df)\<rparr>
      else Inl KeyError)"

fun missing :: "cell \<Rightarrow> bool" where
  "missing NaN = True"
| "missing NaT = True"
| "missing (Val JNull) = True"
| "missing _ = False"

text \<open>The sort key of a cell of a numeric or a time column.\<close>

fun cell_key :: "cell \<Rightarrow> rat" where
  "cell_key (Num x) = x"
| "cell_key (Timestamp n) = of_int n"
| "cell_key _ = 0"

text \<open>\<^verbatim>\<open>df.drop_duplicates(subset=[c])\<close> keeps the first row of every value of column \<open>c\<close>; missing
  values count as equal to each other.\<close>

fun drop_seen :: "cell list \<Rightarrow> string \<Rightarrow> row list \<Rightarrow> row list" where
  "drop_seen seen c [] = []"
| "drop_seen seen c (r # rs) =
     (if cell_at r c \<in> set seen then drop_seen seen c rs
      else r # drop_seen (cell_at r c # seen) c rs)"

definition drop_duplicates :: "string \<Rightarrow> frame \<Rightarrow> frame" where
  "drop_duplicates c df = df\<lparr>rows := drop_seen [] c (rows df)\<rparr>"

text \<open>\<^verbatim>\<open>df.sort_values(by=c, ascending=...)\<close>: the rows in the order of column \<open>c\<close>, rows with a
  missing value last. pandas does not fix the order of rows with equal keys; the model keeps them
  in their previous order.\<close>

definition sort_values :: "string \<Rightarrow> bool \<Rightarrow> frame \<Rightarrow> frame" where
  "sort_values c ascending df =
     (let present = filter (\<lambda>r. \<not> missing (cell_at r c)) (rows df);
          absent = filter (\<lambda>r. missing (cell_at r c)) (rows df)
      in df\<lparr>rows :=
           (if ascending then sort_key (\<lambda>r. cell_key (cell_at r c)) present
            else sort_key (\<lambda>r. - cell_key (cell_at r c)) present) @ absent\<rparr>)"

text \<open>\<^verbatim>\<open>df.dropna(subset=[c])\<close>.\<close>

definition dropna :: "string \<Rightarrow> frame \<Rightarrow> frame" where
  "dropna c df = df\<lparr>rows := filter (\<lambda>r. \<not> missing (cell_at r c)) (rows df)\<rparr>"

text \<open>\<^verbatim>\<open>df.head(n)\<close>: the first \<open>n\<close> rows; for a negative \<open>n\<close>, all rows but the last \<open>-n\<close>.\<close>

definition head :: "int \<Rightarrow> frame \<Rightarrow> frame" where
  "head n df =
     df\<lparr>rows := (if 0 \<le> n then take (nat n) (rows df)
                 else take (length (rows df) - nat (- n)) (rows df))\<rparr>"

section \<open>Tabular assembly of \<^verbatim>\<open>get_ohlc_data_paginated\<close>\<close>

fun as_dict :: "jval \<Rightarrow> dict option" where
  "as_dict (JObj d) = Some d"
| "as_dict _ = None"

text \<open>\<^verbatim>\<open>pd.to_datetime(column, unit='s', utc=True)\<close>. How pandas reads one cell is a parameter
  \<open>to_datetime\<close>: the nanoseconds of the time, \<open>None\<close> for \<^verbatim>\<open>NaT\<close>, or the exception it raises.
  The column raises the first exception one of its cells raises.\<close>

fun to_datetime_column :: "(cell \<Rightarrow> py_exc + int option) \<Rightarrow> cell list \<Rightarrow> py_exc + cell list" where
  "to_datetime_column to_datetime [] = Inr []"
| "to_datetime_column to_datetime (c # cs) =
     (case to_datetime c of
        Inl e \<Rightarrow> Inl e
      | Inr t \<Rightarrow>
          (case to_datetime_column to_datetime cs of
             Inl e \<Rightarrow> Inl e
           | Inr ts \<Rightarrow> Inr ((case t of None \<Rightarrow> NaT | Some n \<Rightarrow> Timestamp n) # ts)))"

text \<open>\<^verbatim>\<open>(df['time'] >= start_time_dt) & (df['time'] <= end_time_dt)\<close> on one cell; a comparison
  with \<^verbatim>\<open>NaT\<close> is false. The datetimes count microseconds, the cells nanoseconds.\<close>

definition in_window :: "datetime \<Rightarrow> datetime \<Rightarrow> cell \<Rightarrow> bool" where
  "in_window start_time_dt end_time_dt c =
     (case c of
        Timestamp n \<Rightarrow> 1000 * epoch_micros start_time_dt \<le> n \<and> n \<le> 1000 * epoch_micros end_time_dt
      | _ \<Rightarrow> False)"

text \<open>Lines 208 to 219. pandas gives a frame its string column labels only from dicts: when an
  element of the accumulated list is not a dict, either the constructor raises or the frame has no column
  \<^verbatim>\<open>'time'\<close> and line 210 raises \<^verbatim>\<open>KeyError\<close>.\<close>

definition assemble_table ::
  "(cell \<Rightarrow> py_exc + int option) \<Rightarrow> datetime \<Rightarrow> datetime \<Rightarrow> jval list \<Rightarrow> py_exc + frame" where
  "assemble_table to_datetime start_time_dt end_time_dt candles =
     (if candles \<noteq> [] then
        (case those (map as_dict candles) of
           None \<Rightarrow> Inl KeyError
         | Some dicts \<Rightarrow>
             let df = DataFrame dicts in
             (case get_column df ''time'' of
                Inl e \<Rightarrow> Inl e
              | Inr raw \<Rightarrow>
                  (case to_datetime_column to_datetime raw of
                     Inl e \<Rightarrow> Inl e
                   | Inr stamps \<Rightarrow>
                       let df1 = set_column df ''time'' stamps;
                           df2 = drop_duplicates ''time'' df1;
                           df3 = sort_values ''time'' True df2;
                           df4 = df3\<lparr>rows := filter (\<lambda>r. in_window start_time_dt end_time_dt
                                                           (cell_at r ''time'')) (rows df3)\<rparr>
                       in select_columns df4
                            [''time'', ''open'', ''high'', ''low'', ''close'', ''volume''])))
      else Inr empty_frame)"

text \<open>The whole function: \<open>None\<close> when the loop never ends, otherwise what it returns or raises.\<close>

definition get_ohlc_data_paginated ::
  "(cell \<Rightarrow> py_exc + int option) \<Rightarrow> candle_api \<Rightarrow> string \<Rightarrow> string \<Rightarrow> datetime \<Rightarrow> datetime \<Rightarrow> int
     \<Rightarrow> (py_exc + frame) option" where
  "get_ohlc_data_paginated to_datetime http symbol resolution start_time_dt end_time_dt limit_per_request =
     (let overall_start_timestamp = timestamp_int start_time_dt;
          overall_end_timestamp = timestamp_int end_time_dt
      in
      case pagination_loop http symbol resolution overall_end_timestamp limit_per_request
             \<lparr>all_candles = [], current_chunk_start_timestamp = overall_start_timestamp,
              requests_made = 0\<rparr> of
        None \<Rightarrow> None
      | Some s \<Rightarrow> Some (assemble_table to_datetime start_time_dt end_time_dt (all_candles s)))"

section \<open>Top-N ranking\<close>

text \<open>\<open>tickers\<close> is the list \<^verbatim>\<open>get_all_tickers(BASE_URL)\<close> returned (line 93), a list of JSON objects.
  How \<^verbatim>\<open>pd.to_numeric(..., errors='coerce')\<close> reads one cell is a parameter \<open>to_numeric\<close>: the
  number, or \<open>None\<close> where pandas puts \<open>NaN\<close>.\<close>

definition get_top_n_symbols_by_volume ::
  "(cell \<Rightarrow> rat option) \<Rightarrow> dict list \<Rightarrow> int \<Rightarrow> py_exc + frame" where
  "get_top_n_symbols_by_volume to_numeric tickers n =
     (if tickers = [] then Inr empty_frame
      else
        let df = DataFrame tickers;
            VOLUME_COLUMN = ''turnover_usd''
        in
        if VOLUME_COLUMN \<notin> set (columns df) then Inr empty_frame
        else
          (case get_column df VOLUME_COLUMN of
             Inl e \<Rightarrow> Inl e
           | Inr raw \<Rightarrow>
               let numeric = map (\<lambda>c. case to_numeric c of None \<Rightarrow> NaN | Some x \<Rightarrow> Num x) raw;
                   df1 = set_column df VOLUME_COLUMN numeric;
                   df2 = dropna VOLUME_COLUMN df1;
                   df_sorted = sort_values VOLUME_COLUMN False df2;
                   top_n_symbols = head n df_sorted;
                   desired_cols = [''symbol'', VOLUME_COLUMN, ''volume'', ''last_price'',
                                   ''close'', ''open'', ''high'', ''low''];
                   existing_cols = filter (\<lambda>col. col \<in> set (columns top_n_symbols)) desired_cols
               in select_columns top_n_symbols existing_cols))"

section \<open>Interactive input\<close>

text \<open>\<^verbatim>\<open>str.strip()\<close> and \<^verbatim>\<open>str.upper()\<close> on ASCII text (an Isabelle character is a byte).\<close>

definition py_isspace :: "char \<Rightarrow> bool" where
  "py_isspace c = ((of_char c :: nat) \<in> {9, 10, 11, 12, 13, 28, 29, 30, 31, 32})"

definition strip :: "string \<Rightarrow> string" where
  "strip s = rev (dropWhile py_isspace (rev (dropWhile py_isspace s)))"

definition upper_char :: "char \<Rightarrow> char" where
  "upper_char c =
     (let n = (of_char c :: nat) in if 97 \<le> n \<and> n \<le> 122 then char_of (n - 32) else c)"

definition upper :: "string \<Rightarrow> string" where
  "upper s = map upper_char s"

text \<open>The lines the user types are a parameter; at the end of the input \<^verbatim>\<open>input()\<close> raises
  \<^verbatim>\<open>EOFError\<close>, which \<open>get_user_input_symbol\<close> does not catch.\<close>

fun get_user_input_symbol :: "string set \<Rightarrow> string list \<Rightarrow> py_exc + string" where
  "get_user_input_symbol available_symbols [] = Inl EOFError"
| "get_user_input_symbol available_symbols (line # lines) =
     (let user_symbol = upper (strip line) in
      if user_symbol \<in> available_symbols then Inr user_symbol
      else get_user_input_symbol available_symbols lines)"

text \<open>The clock as \<open>get_user_input_date_range\<close> reads it in one pass of its loop:
  \<^verbatim>\<open>datetime.now().year\<close> (local time) and \<^verbatim>\<open>datetime.now(timezone.utc)\<close>.\<close>

record clock =
  local_year :: int
  utc_now :: datetime

text \<open>The constructor \<^verbatim>\<open>datetime(y, m, d, H, M, S, tzinfo=timezone.utc)\<close> at the two dates the
  program builds; it raises \<^verbatim>\<open>ValueError\<close> for a year outside 1 to 9999.\<close>

definition make_datetime :: "int \<Rightarrow> int \<Rightarrow> int \<Rightarrow> int \<Rightarrow> int \<Rightarrow> int \<Rightarrow> py_exc + datetime" where
  "make_datetime y m d H M S =
     (if 1 \<le> y \<and> y \<le> 9999
      then Inr \<lparr>year = y, month = m, day = d, hour = H, minute = M, second = S, microsecond = 0\<rparr>
      else Inl ValueError)"

text \<open>Lines 245 to 275, for the two years read: \<open>Inr None\<close> is \<^verbatim>\<open>continue\<close> (the pair is rejected),
  \<open>Inr (Some (start, end))\<close> the returned pair.\<close>

definition date_range_of_years :: "clock \<Rightarrow> int \<Rightarrow> int \<Rightarrow> py_exc + (datetime \<times> datetime) option" where
  "date_range_of_years clk start_year end_year =
     (if \<not> (1900 \<le> start_year \<and> start_year \<le> local_year clk
             \<and> 1900 \<le> end_year \<and> end_year \<le> local_year clk) then Inr None
      else if start_year > end_year then Inr None
      else
        (case (if start_year < 2020 then make_datetime start_year 1 1 0 0 0
               else make_datetime start_year 1 1 0 0 0) of
           Inl e \<Rightarrow> Inl e
         | Inr start_date_obj \<Rightarrow>
             (case make_datetime end_year 12 31 23 59 59 of
                Inl e \<Rightarrow> Inl e
              | Inr end_date_obj \<Rightarrow>
                  let current_utc_time = utc_now clk in
                  if dt_greater end_date_obj current_utc_time
                  then Inr (Some (start_date_obj,
                         current_utc_time\<lparr>hour := 23, minute := 59, second := 59, microsecond := 0\<rparr>))
                  else Inr (Some (start_date_obj, end_date_obj)))))"

text \<open>The body of the \<^verbatim>\<open>try\<close>. A typed line is given as \<^verbatim>\<open>int()\<close> reads it: \<open>Some y\<close>, or \<open>None\<close>
  when \<^verbatim>\<open>int()\<close> raises \<^verbatim>\<open>ValueError\<close>. The result carries the lines not yet read.\<close>

fun date_range_try ::
  "clock \<Rightarrow> int option list \<Rightarrow> int option list \<times> (py_exc + (datetime \<times> datetime) option)" where
  "date_range_try clk [] = ([], Inl EOFError)"
| "date_range_try clk (None # rest) = (rest, Inl ValueError)"
| "date_range_try clk (Some start_year # []) = ([], Inl EOFError)"
| "date_range_try clk (Some start_year # None # rest) = (rest, Inl ValueError)"
| "date_range_try clk (Some start_year # Some end_year # rest) =
     (rest, date_range_of_years clk start_year end_year)"

text \<open>The \<^verbatim>\<open>while True\<close> loop: both handlers print and fall through to the next pass, also at the
  end of the input, where the loop never ends. \<open>clk i\<close> is the clock in pass \<open>i\<close>.\<close>

partial_function (option) get_user_input_date_range ::
  "(nat \<Rightarrow> clock) \<Rightarrow> nat \<Rightarrow> int option list \<Rightarrow> (datetime \<times> datetime) option" where
  "get_user_input_date_range clk i lines =
     (case date_range_try (clk i) lines of
        (rest, Inr (Some dates)) \<Rightarrow> Some dates
      | (rest, Inr None) \<Rightarrow> get_user_input_date_range clk (Suc i) rest
      | (rest, Inl e) \<Rightarrow> get_user_input_date_range clk (Suc i) rest)"

declare get_user_input_date_range.simps [code]

section \<open>Example environments\<close>

text \<open>A candle of the exchange at time \<open>t\<close> (seconds), with fixed prices.\<close>

definition candle :: "int \<Rightarrow> jval" where
  "candle t = JObj [(''time'', JInt t), (''open'', JInt 100), (''high'', JInt 110),
                    (''low'', JInt 90), (''close'', JInt 105), (''volume'', JInt 7)]"

definition page_response :: "jval list \<Rightarrow> http_outcome" where
  "page_response page = Response 200 (Some (JObj [(''result'', JList page)]))"

text \<open>An exchange that holds a candle at each of the given times and answers a request with the
  first candles of the requested window, at most \<open>cap\<close> and at most the requested limit.\<close>

definition capped_exchange :: "nat \<Rightarrow> int list \<Rightarrow> candle_api" where
  "capped_exchange cap available k params =
     page_response (map candle
       (take (min cap (nat (p_limit params)))
          (filter (\<lambda>t. p_start params \<le> t \<and> t \<le> p_end params) available)))"

text \<open>An exchange that answers every request with the same page.\<close>

definition fixed_exchange :: "jval list \<Rightarrow> candle_api" where
  "fixed_exchange page k params = page_response page"

text \<open>A reading of \<^verbatim>\<open>pd.to_datetime(unit='s')\<close> on whole seconds and missing values.\<close>

fun seconds_to_datetime :: "cell \<Rightarrow> py_exc + int option" where
  "seconds_to_datetime (Val (JInt t)) = Inr (Some (t * 1000000000))"
| "seconds_to_datetime (Val JNull) = Inr None"
| "seconds_to_datetime NaN = Inr None"
| "seconds_to_datetime _ = Inl ValueError"

text \<open>A reading of \<^verbatim>\<open>pd.to_numeric(errors='coerce')\<close> on integers.\<close>

fun ints_to_numeric :: "cell \<Rightarrow> rat option" where
  "ints_to_numeric (Val (JInt i)) = Some (of_int i)"
| "ints_to_numeric _ = None"

section \<open>Conditions and inputs the properties speak of\<close>

text \<open>The response has status 200 and a JSON body whose \<^verbatim>\<open>'result'\<close> key holds the list \<open>xs\<close>.\<close>

definition result_holds_list :: "http_outcome \<Rightarrow> jval list \<Rightarrow> bool" where
  "result_holds_list out xs =
     (case out of
        Response st (Some (JObj d)) \<Rightarrow> st = 200 \<and> map_of d ''result'' = Some (JList xs)
      | _ \<Rightarrow> False)"

text \<open>The request failed: no connection or a timeout, a status from 400 to 599, a body that is
  not JSON, or a JSON body in which \<^verbatim>\<open>['result']\<close> is missing or is not a list.\<close>

definition fetch_failed :: "http_outcome \<Rightarrow> bool" where
  "fetch_failed out =
     (case out of
        Failed _ \<Rightarrow> True
      | Response st b \<Rightarrow>
          (400 \<le> st \<and> st < 600) \<or>
          (case b of
             None \<Rightarrow> True
           | Some j \<Rightarrow> (case py_getitem j ''result'' of Inr (JList _) \<Rightarrow> False | _ \<Rightarrow> True)))"

text \<open>A server that answers every URL with status 300 and a well-formed envelope, one that
  answers with status 200, and one that cannot be reached.\<close>

definition multiple_choices_http :: "string \<Rightarrow> http_outcome" where
  "multiple_choices_http url = Response 300 (Some (JObj [(''result'', JList [JStr ''BTCUSD''])]))"

definition ok_http :: "string \<Rightarrow> http_outcome" where
  "ok_http url = Response 200 (Some (JObj [(''result'', JList [JStr ''BTCUSD''])]))"

definition unreachable_http :: "string \<Rightarrow> http_outcome" where
  "unreachable_http url = Failed ConnectionError"

text \<open>The pass of the loop in state \<open>s\<close> runs and its request is answered with \<open>page\<close>: the loop
  condition holds, line 155 does not raise, and the response passes the envelope check.\<close>

definition fetches_page ::
  "candle_api \<Rightarrow> string \<Rightarrow> string \<Rightarrow> int \<Rightarrow> int \<Rightarrow> fetch_state \<Rightarrow> jval list \<Rightarrow> bool" where
  "fetches_page http symbol resolution overall_end_timestamp limit_per_request s page =
     (current_chunk_start_timestamp s \<le> overall_end_timestamp
      \<and> fromtimestamp_ok (current_chunk_start_timestamp s)
      \<and> (case response_json
                 (http (requests_made s)
                    \<lparr>p_symbol = symbol, p_resolution = resolution,
                     p_start = current_chunk_start_timestamp s,
                     p_end = overall_end_timestamp, p_limit = limit_per_request\<rparr>) of
            Inl e \<Rightarrow> False
          | Inr json_response \<Rightarrow> result_list json_response = Inr (Some page)))"

text \<open>The \<^verbatim>\<open>'time'\<close> of the last candle of a page, as the loop reads and compares it.\<close>

definition last_time :: "jval list \<Rightarrow> py_exc + int" where
  "last_time page = (case py_getitem (last page) ''time'' of Inl e \<Rightarrow> Inl e | Inr v \<Rightarrow> as_int v)"

text \<open>The page a response carries, if it passes the envelope check.\<close>

definition page_of :: "http_outcome \<Rightarrow> jval list option" where
  "page_of out =
     (case response_json out of
        Inl e \<Rightarrow> None
      | Inr json_response \<Rightarrow>
          (case result_list json_response of Inr (Some page) \<Rightarrow> Some page | _ \<Rightarrow> None))"

text \<open>A candle page is bounded by the requested limit: the exchange never returns more candles
  than the request asked for.\<close>

definition pages_within_limit :: "candle_api \<Rightarrow> int \<Rightarrow> bool" where
  "pages_within_limit http limit_per_request =
     (\<forall>k params page.
        p_limit params = limit_per_request \<and> page_of (http k params) = Some page
        \<longrightarrow> int (length page) \<le> limit_per_request)"

text \<open>The precondition of the termination claim: every full-size page, of exactly
  \<open>limit_per_request\<close> candles, ends at or after the \<^verbatim>\<open>start\<close> of its request. And the same for
  every page of at least \<open>limit_per_request\<close> candles, which are the pages after which the loop
  goes on (line 195); for pages bounded by the limit the two say the same.\<close>

definition full_pages_advance :: "candle_api \<Rightarrow> int \<Rightarrow> bool" where
  "full_pages_advance http limit_per_request =
     (\<forall>k params page t.
        p_limit params = limit_per_request \<and> page_of (http k params) = Some page \<and> page \<noteq> []
        \<and> int (length page) = limit_per_request \<and> last_time page = Inr t
        \<longrightarrow> p_start params \<le> t)"

definition continuing_pages_advance :: "candle_api \<Rightarrow> int \<Rightarrow> bool" where
  "continuing_pages_advance http limit_per_request =
     (\<forall>k params page t.
        p_limit params = limit_per_request \<and> page_of (http k params) = Some page \<and> page \<noteq> []
        \<and> limit_per_request \<le> int (length page) \<and> last_time page = Inr t
        \<longrightarrow> p_start params \<le> t)"

text \<open>The time \<open>secs\<close> seconds after the epoch, for \<open>secs\<close> below 60.\<close>

definition epoch_plus :: "int \<Rightarrow> datetime" where
  "epoch_plus secs = \<lparr>year = 1970, month = 1, day = 1, hour = 0, minute = 0, second = secs, microsecond = 0\<rparr>"

text \<open>Ten daily candles from 2024-01-01 to 2024-01-10, the window that holds them, and the
  table they make.\<close>

definition ten_days :: "int list" where
  "ten_days = [1704067200, 1704153600, 1704240000, 1704326400, 1704412800,
               1704499200, 1704585600, 1704672000, 1704758400, 1704844800]"

definition window_start :: datetime where
  "window_start = \<lparr>year = 2024, month = 1, day = 1, hour = 0, minute = 0, second = 0, microsecond = 0\<rparr>"

definition window_end :: datetime where
  "window_end = \<lparr>year = 2024, month = 1, day = 10, hour = 23, minute = 59, second = 59, microsecond = 0\<rparr>"

definition ten_day_table :: frame where
  "ten_day_table =
     \<lparr>columns = [''time'', ''open'', ''high'', ''low'', ''close'', ''volume''],
      rows = map (\<lambda>t. [(''time'', Timestamp (t * 1000000000)), (''open'', Val (JInt 100)),
                         (''high'', Val (JInt 110)), (''low'', Val (JInt 90)),
                         (''close'', Val (JInt 105)), (''volume'', Val (JInt 7))]) ten_days\<rparr>"

text \<open>A page whose last candle has no \<^verbatim>\<open>'time'\<close>.\<close>

definition broken_page :: "jval list" where
  "broken_page = [candle 5, JObj [(''open'', JInt 100), (''close'', JInt 105)]]"

text \<open>A clock on 2024-06-15 at 10:30 UTC; a clock in the first hours of 2025 in a time zone ahead
  of UTC, where it is still 2024-12-31 20:00 UTC; the dates the date-range prompt builds; and the
  condition under which it rejects a pair of years.\<close>

definition new_year_clock :: clock where
  "new_year_clock =
     \<lparr>local_year = 2025,
      utc_now = \<lparr>year = 2024, month = 12, day = 31, hour = 20, minute = 0, second = 0,
                 microsecond = 0\<rparr>\<rparr>"

definition june_clock :: clock where
  "june_clock =
     \<lparr>local_year = 2024,
      utc_now = \<lparr>year = 2024, month = 6, day = 15, hour = 10, minute = 30, second = 0,
                 microsecond = 0\<rparr>\<rparr>"

definition jan_1 :: "int \<Rightarrow> datetime" where
  "jan_1 y = \<lparr>year = y, month = 1, day = 1, hour = 0, minute = 0, second = 0, microsecond = 0\<rparr>"

definition dec_31 :: "int \<Rightarrow> datetime" where
  "dec_31 y = \<lparr>year = y, month = 12, day = 31, hour = 23, minute = 59, second = 59, microsecond = 0\<rparr>"

definition end_of_day :: "datetime \<Rightarrow> datetime" where
  "end_of_day dt = dt\<lparr>hour := 23, minute := 59, second := 59, microsecond := 0\<rparr>"

definition years_rejected :: "clock \<Rightarrow> int \<Rightarrow> int \<Rightarrow> bool" where
  "years_rejected clk start_year end_year =
     (start_year < 1900 \<or> local_year clk < start_year \<or> end_year < 1900 \<or> local_year clk < end_year
      \<or> end_year < start_year)"

text \<open>The cell \<^verbatim>\<open>pd.DataFrame(tickers)\<close> has for a ticker in column \<open>c\<close>, the display columns of
  the ranking, whether some ticker has field \<open>c\<close>, and the turnovers of the tickers that
  \<open>to_numeric\<close> reads as numbers, in the order of the tickers.\<close>

definition ticker_cell :: "dict \<Rightarrow> string \<Rightarrow> cell" where
  "ticker_cell d c = (case map_of d c of None \<Rightarrow> NaN | Some v \<Rightarrow> Val v)"

definition desired_cols :: "string list" where
  "desired_cols = [''symbol'', ''turnover_usd'', ''volume'', ''last_price'', ''close'', ''open'',
                   ''high'', ''low'']"

definition has_field :: "dict list \<Rightarrow> string \<Rightarrow> bool" where
  "has_field ds c = list_ex (\<lambda>d. map_of d c \<noteq> None) ds"

definition numeric_turnovers :: "(cell \<Rightarrow> rat option) \<Rightarrow> dict list \<Rightarrow> rat list" where
  "numeric_turnovers to_numeric tickers =
     List.map_filter (\<lambda>d. to_numeric (ticker_cell d ''turnover_usd'')) tickers"

text \<open>The rows of the ranked frame before \<^verbatim>\<open>head\<close> and the projection: the tickers' rows with
  the turnover made numeric, those without a number dropped, in descending order.\<close>

definition ranked_rows :: "(cell \<Rightarrow> rat option) \<Rightarrow> dict list \<Rightarrow> row list" where
  "ranked_rows to_numeric tickers =
     sort_key (\<lambda>r. - cell_key (cell_at r ''turnover_usd''))
       (filter (\<lambda>r. \<not> missing (cell_at r ''turnover_usd''))
          (map (\<lambda>d. AList.update ''turnover_usd''
                       (case to_numeric (ticker_cell d ''turnover_usd'') of None \<Rightarrow> NaN | Some x \<Rightarrow> Num x)
                       (map (\<lambda>c. (c, ticker_cell d c)) (columns (DataFrame tickers))))
             tickers))"

text \<open>Four tickers, one of them with a turnover that is not a number, and the two with the
  highest turnover as \<open>get_top_n_symbols_by_volume\<close> shows them.\<close>

definition example_tickers :: "dict list" where
  "example_tickers =
     [[(''symbol'', JStr ''ETHUSD''), (''turnover_usd'', JInt 5), (''close'', JInt 3000)],
      [(''symbol'', JStr ''XRPUSD''), (''turnover_usd'', JStr ''n/a''), (''close'', JInt 1)],
      [(''symbol'', JStr ''BTCUSD''), (''turnover_usd'', JInt 9), (''mark_price'', JInt 60000)],
      [(''symbol'', JStr ''SOLUSD''), (''turnover_usd'', JInt 2)]]"

definition example_top :: frame where
  "example_top =
     \<lparr>columns = [''symbol'', ''turnover_usd'', ''close''],
      rows = [[(''symbol'', Val (JStr ''BTCUSD'')), (''turnover_usd'', Num 9), (''close'', NaN)],
              [(''symbol'', Val (JStr ''ETHUSD'')), (''turnover_usd'', Num 5),
               (''close'', Val (JInt 3000))]]\<rparr>"

section \<open>Properties of the fetchers\<close>

lemma result_list_Some_iff:
  "result_list j = Inr (Some xs) \<longleftrightarrow> py_getitem j ''result'' = Inr (JList xs)"
  by (cases j; cases "py_getitem j ''result''")
     (auto simp: result_list_def split: sum.splits bool.splits option.splits if_splits elim: is_list.elims)

lemma envelope_success:
  "result_holds_list out xs \<Longrightarrow>
     (case response_json out of Inl e \<Rightarrow> Inl e
      | Inr j \<Rightarrow> (case result_list j of Inl e \<Rightarrow> Inl e | Inr (Some r) \<Rightarrow> Inr r | Inr None \<Rightarrow> Inr [])) = Inr xs"
  by (auto simp: result_holds_list_def response_json_def raise_for_status_def result_list_def
      split: http_outcome.splits option.splits jval.splits)

lemma envelope_failure:
  "fetch_failed out \<Longrightarrow>
     (case (case response_json out of Inl e \<Rightarrow> Inl e
      | Inr j \<Rightarrow> (case result_list j of Inl e \<Rightarrow> Inl e | Inr (Some r) \<Rightarrow> Inr r | Inr None \<Rightarrow> Inr []))
      of Inr r \<Rightarrow> Inr r | Inl e \<Rightarrow> (if is_RequestException e then Inr [] else Inr [])) = (Inr [] :: py_exc + jval list)"
  by (cases out)
     (auto simp: fetch_failed_def response_json_def raise_for_status_def result_list_Some_iff
      split: option.splits sum.splits jval.splits)

text \<open>
  C4, as the code has it. For \<open>get_all_products\<close> and for \<open>get_all_tickers\<close>: on HTTP 200 with a
  JSON body whose \<^verbatim>\<open>'result'\<close> key holds a list, the function returns that list; on a network
  failure, a timeout, a status from 400 to 599, a body that is not JSON or a missing or malformed
  \<^verbatim>\<open>'result'\<close>, it returns the empty list; and in every case it returns a list to its caller
  and raises nothing.
\<close>

theorem fetchers_result_or_empty:
  "(result_holds_list (http (base_url @ ''/v2/products'')) xs
      \<longrightarrow> get_all_products http base_url = Inr xs)
   \<and> (fetch_failed (http (base_url @ ''/v2/products''))
      \<longrightarrow> get_all_products http base_url = Inr [])
   \<and> (\<exists>ys. get_all_products http base_url = Inr ys)
   \<and> (result_holds_list (http (base_url @ ''/v2/tickers'')) xs'
      \<longrightarrow> get_all_tickers http base_url = Inr xs')
   \<and> (fetch_failed (http (base_url @ ''/v2/tickers''))
      \<longrightarrow> get_all_tickers http base_url = Inr [])
   \<and> (\<exists>ys. get_all_tickers http base_url = Inr ys)"
proof -
  have p1: "result_holds_list (http (base_url @ ''/v2/products'')) xs
              \<Longrightarrow> get_all_products http base_url = Inr xs"
    using envelope_success [of "http (base_url @ ''/v2/products'')" xs]
    by (simp add: get_all_products_def get_all_products_try_def)
  have p2: "fetch_failed (http (base_url @ ''/v2/products''))
              \<Longrightarrow> get_all_products http base_url = Inr []"
    using envelope_failure [of "http (base_url @ ''/v2/products'')"]
    by (simp add: get_all_products_def get_all_products_try_def)
  have p3: "\<exists>ys. get_all_products http base_url = Inr ys"
    by (simp add: get_all_products_def split: sum.splits)
  have t1: "result_holds_list (http (base_url @ ''/v2/tickers'')) xs'
              \<Longrightarrow> get_all_tickers http base_url = Inr xs'"
    using envelope_success [of "http (base_url @ ''/v2/tickers'')" xs']
    by (simp add: get_all_tickers_def get_all_tickers_try_def)
  have t2: "fetch_failed (http (base_url @ ''/v2/tickers''))
              \<Longrightarrow> get_all_tickers http base_url = Inr []"
    using envelope_failure [of "http (base_url @ ''/v2/tickers'')"]
    by (simp add: get_all_tickers_def get_all_tickers_try_def)
  have t3: "\<exists>ys. get_all_tickers http base_url = Inr ys"
    by (simp add: get_all_tickers_def split: sum.splits)
  from p1 p2 p3 t1 t2 t3 show ?thesis by blast
qed

theorem fetchers_result_or_empty_witness:
  "result_holds_list (ok_http (''https://api.india.delta.exchange'' @ ''/v2/products'')) [JStr ''BTCUSD'']
   \<and> get_all_products ok_http ''https://api.india.delta.exchange'' = Inr [JStr ''BTCUSD'']
   \<and> result_holds_list (ok_http (''https://api.india.delta.exchange'' @ ''/v2/tickers'')) [JStr ''BTCUSD'']
   \<and> get_all_tickers ok_http ''https://api.india.delta.exchange'' = Inr [JStr ''BTCUSD'']
   \<and> fetch_failed (unreachable_http (''https://api.india.delta.exchange'' @ ''/v2/products''))
   \<and> get_all_products unreachable_http ''https://api.india.delta.exchange'' = Inr []
   \<and> fetch_failed (unreachable_http (''https://api.india.delta.exchange'' @ ''/v2/tickers''))
   \<and> get_all_tickers unreachable_http ''https://api.india.delta.exchange'' = Inr []"
proof -
  have a: "result_holds_list (ok_http (''https://api.india.delta.exchange'' @ ''/v2/products''))
             [JStr ''BTCUSD'']"
    by (simp add: result_holds_list_def ok_http_def)
  have b: "result_holds_list (ok_http (''https://api.india.delta.exchange'' @ ''/v2/tickers''))
             [JStr ''BTCUSD'']"
    by (simp add: result_holds_list_def ok_http_def)
  have c: "fetch_failed (unreachable_http (''https://api.india.delta.exchange'' @ ''/v2/products''))"
    by (simp add: fetch_failed_def unreachable_http_def)
  have d: "fetch_failed (unreachable_http (''https://api.india.delta.exchange'' @ ''/v2/tickers''))"
    by (simp add: fetch_failed_def unreachable_http_def)
  from a b c d
    fetchers_result_or_empty [of ok_http "''https://api.india.delta.exchange''"
      "[JStr ''BTCUSD'']" "[JStr ''BTCUSD'']"]
    fetchers_result_or_empty [of unreachable_http "''https://api.india.delta.exchange''"]
  show ?thesis by blast
qed

text \<open>C4 as stated fails for a status that is not 2xx and not an error status either:
  \<^verbatim>\<open>raise_for_status\<close> lets status 300 pass, and the list in the body is returned.\<close>

theorem fetchers_non_2xx_counterexample:
  "\<not> (200 \<le> status (multiple_choices_http ''https://api.india.delta.exchange/v2/products'')
        \<and> status (multiple_choices_http ''https://api.india.delta.exchange/v2/products'') < 300)
   \<and> get_all_products multiple_choices_http ''https://api.india.delta.exchange'' \<noteq> Inr []
   \<and> get_all_tickers multiple_choices_http ''https://api.india.delta.exchange'' \<noteq> Inr []"
  by (simp add: multiple_choices_http_def get_all_products_def get_all_products_try_def
      get_all_tickers_def get_all_tickers_try_def response_json_def raise_for_status_def result_list_def)

section \<open>Properties of the pagination loop\<close>

lemma chunk_try_page:
  assumes "fetches_page http symbol resolution oe lpr s page" and "page \<noteq> []"
  shows "chunk_try http symbol resolution oe lpr s =
     (let s2 = s\<lparr>requests_made := Suc (requests_made s), all_candles := all_candles s @ page\<rparr> in
      case py_getitem (last page) ''time'' of
        Inl e \<Rightarrow> (s2, Inl e)
      | Inr v \<Rightarrow>
          (case as_int v of
             Inl e \<Rightarrow> (s2, Inl e)
           | Inr t \<Rightarrow>
               if t \<ge> oe then (s2, Inr Break)
               else if int (length page) < lpr
               then (s2\<lparr>current_chunk_start_timestamp := t + 1\<rparr>, Inr Break)
               else (s2\<lparr>current_chunk_start_timestamp := t + 1\<rparr>, Inr Continue)))"
  using assms
  by (auto simp: fetches_page_def chunk_try_def Let_def py_ge_def py_add_def
      split: sum.splits option.splits bool.splits)

lemma chunk_try_Continue:
  assumes "chunk_try http symbol resolution oe lpr s = (s', Inr Continue)"
  shows "\<exists>page v t. fromtimestamp_ok (current_chunk_start_timestamp s)
          \<and> (case response_json
                 (http (requests_made s)
                    \<lparr>p_symbol = symbol, p_resolution = resolution,
                     p_start = current_chunk_start_timestamp s,
                     p_end = oe, p_limit = lpr\<rparr>) of
            Inl e \<Rightarrow> False
          | Inr json_response \<Rightarrow> result_list json_response = Inr (Some page))
          \<and> page \<noteq> [] \<and> py_getitem (last page) ''time'' = Inr v \<and> as_int v = Inr t
          \<and> t < oe \<and> lpr \<le> int (length page)
          \<and> s' = s\<lparr>requests_made := Suc (requests_made s), all_candles := all_candles s @ page,
                    current_chunk_start_timestamp := t + 1\<rparr>"
  using assms
  by (auto simp: chunk_try_def Let_def py_ge_def py_add_def
      split: sum.splits option.splits bool.splits if_splits)

lemma chunk_try_Continue_advances:
  assumes adv: "continuing_pages_advance http lpr"
    and c: "chunk_try http symbol resolution oe lpr s = (s', Inr Continue)"
  shows "current_chunk_start_timestamp s < current_chunk_start_timestamp s'
         \<and> current_chunk_start_timestamp s' \<le> oe"
proof -
  from chunk_try_Continue [OF c] obtain page v t where
    r: "(case response_json
                 (http (requests_made s)
                    \<lparr>p_symbol = symbol, p_resolution = resolution,
                     p_start = current_chunk_start_timestamp s,
                     p_end = oe, p_limit = lpr\<rparr>) of
            Inl e \<Rightarrow> False
          | Inr json_response \<Rightarrow> result_list json_response = Inr (Some page))"
    and p: "page \<noteq> []" "py_getitem (last page) ''time'' = Inr v" "as_int v = Inr t"
      "t < oe" "lpr \<le> int (length page)"
    and s': "s' = s\<lparr>requests_made := Suc (requests_made s), all_candles := all_candles s @ page,
                    current_chunk_start_timestamp := t + 1\<rparr>"
    by blast
  have po: "page_of (http (requests_made s)
                    \<lparr>p_symbol = symbol, p_resolution = resolution,
                     p_start = current_chunk_start_timestamp s,
                     p_end = oe, p_limit = lpr\<rparr>) = Some page"
    using r by (auto simp: page_of_def split: sum.splits)
  have lt: "last_time page = Inr t"
    using p by (simp add: last_time_def)
  have "current_chunk_start_timestamp s \<le> t"
    using adv po p(1,5) lt unfolding continuing_pages_advance_def
    by (metis candle_params.select_convs(3,5))
  then show ?thesis using s' p(4) by simp
qed

lemma loop_terminates:
  assumes adv: "continuing_pages_advance http lpr"
  shows "\<exists>s'. pagination_loop http symbol resolution oe lpr s = Some s'"
proof (induction "nat (oe + 1 - current_chunk_start_timestamp s)" arbitrary: s rule: less_induct)
  case less
  show ?case
  proof (cases "current_chunk_start_timestamp s \<le> oe")
    case False
    then show ?thesis by (subst pagination_loop.simps) simp
  next
    case True
    obtain s1 r where ct: "chunk_try http symbol resolution oe lpr s = (s1, r)"
      by (cases "chunk_try http symbol resolution oe lpr s")
    show ?thesis
    proof (cases r)
      case (Inl e)
      then show ?thesis using True ct by (subst pagination_loop.simps) simp
    next
      case (Inr f)
      show ?thesis
      proof (cases f)
        case Break
        then show ?thesis using True ct Inr by (subst pagination_loop.simps) simp
      next
        case Continue
        with ct Inr have c: "chunk_try http symbol resolution oe lpr s = (s1, Inr Continue)" by simp
        from chunk_try_Continue_advances [OF adv c]
        have "nat (oe + 1 - current_chunk_start_timestamp s1) < nat (oe + 1 - current_chunk_start_timestamp s)"
          by linarith
        from less [OF this] obtain s' where
          "pagination_loop http symbol resolution oe lpr s1 = Some s'" by blast
        then show ?thesis using True c by (subst pagination_loop.simps) simp
      qed
    qed
  qed
qed

lemma ten_days_timestamps:
  "timestamp_int window_start = 1704067200" "timestamp_int window_end = 1704931199"
  by code_simp+

lemma ten_days_step1: "chunk_try (capped_exchange 4 ten_days) ''BTCUSD'' ''1d'' 1704931199 4
          \<lparr>all_candles = [], current_chunk_start_timestamp = 1704067200, requests_made = 0\<rparr>
        = (\<lparr>all_candles = map candle (take 4 ten_days), current_chunk_start_timestamp = 1704326401,
             requests_made = Suc 0\<rparr>, Inr Continue)"
  by code_simp

lemma ten_days_step2: "chunk_try (capped_exchange 4 ten_days) ''BTCUSD'' ''1d'' 1704931199 4
          \<lparr>all_candles = map candle (take 4 ten_days), current_chunk_start_timestamp = 1704326401,
             requests_made = Suc 0\<rparr>
        = (\<lparr>all_candles = map candle (take 8 ten_days), current_chunk_start_timestamp = 1704672001,
             requests_made = Suc (Suc 0)\<rparr>, Inr Continue)"
  by code_simp

lemma ten_days_step3: "chunk_try (capped_exchange 4 ten_days) ''BTCUSD'' ''1d'' 1704931199 4
          \<lparr>all_candles = map candle (take 8 ten_days), current_chunk_start_timestamp = 1704672001,
             requests_made = Suc (Suc 0)\<rparr>
        = (\<lparr>all_candles = map candle ten_days, current_chunk_start_timestamp = 1704844801,
             requests_made = Suc (Suc (Suc 0))\<rparr>, Inr Break)"
  by code_simp

lemma ten_days_loop: "pagination_loop (capped_exchange 4 ten_days) ''BTCUSD'' ''1d'' 1704931199 4
          \<lparr>all_candles = [], current_chunk_start_timestamp = 1704067200, requests_made = 0\<rparr>
        = Some \<lparr>all_candles = map candle ten_days, current_chunk_start_timestamp = 1704844801,
                requests_made = 3\<rparr>"
  apply (subst pagination_loop.simps)
  apply (simp only: ten_days_step1)
  apply simp
  apply (subst pagination_loop.simps)
  apply (simp only: ten_days_step2)
  apply simp
  apply (subst pagination_loop.simps)
  apply (simp only: ten_days_step3)
  apply simp
  done

lemma ten_days_assemble:
  "assemble_table seconds_to_datetime window_start window_end (map candle ten_days) = Inr ten_day_table"
  by code_simp

text \<open>
  C2. In the pagination loop, if a fetched page is non-empty, the time of its last candle is below
  the overall end, and the page has fewer candles than \<open>limit_per_request\<close>, then the loop stops
  after that page: it returns with one more request made than before the page and with the
  page's candles appended to the accumulated ones.
\<close>

theorem short_page_stops_loop:
  assumes "fetches_page http symbol resolution overall_end_timestamp limit_per_request s page"
    and "page \<noteq> []"
    and "py_getitem (last page) ''time'' = Inr v" and "as_int v = Inr t"
    and "t < overall_end_timestamp"
    and "int (length page) < limit_per_request"
  shows "pagination_loop http symbol resolution overall_end_timestamp limit_per_request s =
           Some (s\<lparr>requests_made := Suc (requests_made s),
                   all_candles := all_candles s @ page,
                   current_chunk_start_timestamp := t + 1\<rparr>)"
proof -
  have c: "current_chunk_start_timestamp s \<le> overall_end_timestamp"
    using assms(1) by (simp add: fetches_page_def)
  have "chunk_try http symbol resolution overall_end_timestamp limit_per_request s =
          (s\<lparr>requests_made := Suc (requests_made s), all_candles := all_candles s @ page,
             current_chunk_start_timestamp := t + 1\<rparr>, Inr Break)"
    using assms(3-6) by (simp add: chunk_try_page [OF assms(1,2)])
  then show ?thesis
    using c by (subst pagination_loop.simps) simp
qed

theorem short_page_stops_loop_witness:
  "fetches_page (capped_exchange 4 ten_days) ''BTCUSD'' ''1d'' 1704931199 4
     \<lparr>all_candles = map candle (take 8 ten_days), current_chunk_start_timestamp = 1704672001,
      requests_made = 2\<rparr> (map candle (drop 8 ten_days))
   \<and> map candle (drop 8 ten_days) \<noteq> []
   \<and> py_getitem (last (map candle (drop 8 ten_days))) ''time'' = Inr (JInt 1704844800)
   \<and> as_int (JInt 1704844800) = Inr 1704844800
   \<and> (1704844800 :: int) < 1704931199
   \<and> int (length (map candle (drop 8 ten_days))) < 4
   \<and> pagination_loop (capped_exchange 4 ten_days) ''BTCUSD'' ''1d'' 1704931199 4
       \<lparr>all_candles = map candle (take 8 ten_days), current_chunk_start_timestamp = 1704672001,
        requests_made = 2\<rparr>
     = Some \<lparr>all_candles = map candle (take 8 ten_days) @ map candle (drop 8 ten_days),
             current_chunk_start_timestamp = 1704844801, requests_made = 3\<rparr>"
proof -
  have a: "fetches_page (capped_exchange 4 ten_days) ''BTCUSD'' ''1d'' 1704931199 4
     \<lparr>all_candles = map candle (take 8 ten_days), current_chunk_start_timestamp = 1704672001,
      requests_made = 2\<rparr> (map candle (drop 8 ten_days))"
    by code_simp
  have b: "map candle (drop 8 ten_days) \<noteq> []"
    by code_simp
  have c: "py_getitem (last (map candle (drop 8 ten_days))) ''time'' = Inr (JInt 1704844800)"
    by code_simp
  have d: "as_int (JInt 1704844800) = Inr 1704844800"
    by simp
  have e: "(1704844800 :: int) < 1704931199"
    by simp
  have f: "int (length (map candle (drop 8 ten_days))) < 4"
    by code_simp
  from short_page_stops_loop [OF a b c d e f] a b c d e f show ?thesis
    by simp
qed

text \<open>
  C10. If reading \<^verbatim>\<open>'time'\<close> of the last candle of a non-empty fetched page raises (the key is
  missing, or the candle is not a dict), the loop stops, and the candles of that page, appended
  before the read, stay in the accumulated list; when this happens on the first page, the page is
  what the tabular assembly receives.
\<close>

theorem raising_page_is_kept:
  assumes "fetches_page http symbol resolution overall_end_timestamp limit_per_request s page"
    and "page \<noteq> []"
    and "py_getitem (last page) ''time'' = Inl e"
  shows "pagination_loop http symbol resolution overall_end_timestamp limit_per_request s =
           Some (s\<lparr>requests_made := Suc (requests_made s), all_candles := all_candles s @ page\<rparr>)
         \<and> (s = \<lparr>all_candles = [], current_chunk_start_timestamp = timestamp_int start_time_dt,
                  requests_made = 0\<rparr>
            \<and> overall_end_timestamp = timestamp_int end_time_dt \<longrightarrow>
            get_ohlc_data_paginated to_datetime http symbol resolution start_time_dt end_time_dt
              limit_per_request
            = Some (assemble_table to_datetime start_time_dt end_time_dt page))"
proof -
  have c: "current_chunk_start_timestamp s \<le> overall_end_timestamp"
    using assms(1) by (simp add: fetches_page_def)
  have "chunk_try http symbol resolution overall_end_timestamp limit_per_request s =
          (s\<lparr>requests_made := Suc (requests_made s), all_candles := all_candles s @ page\<rparr>, Inl e)"
    using assms(3) by (simp add: chunk_try_page [OF assms(1,2)])
  then have l: "pagination_loop http symbol resolution overall_end_timestamp limit_per_request s =
           Some (s\<lparr>requests_made := Suc (requests_made s), all_candles := all_candles s @ page\<rparr>)"
    using c by (subst pagination_loop.simps) simp
  then show ?thesis
    by (auto simp: get_ohlc_data_paginated_def Let_def)
qed

theorem raising_page_is_kept_witness:
  "fetches_page (fixed_exchange broken_page) ''BTCUSD'' ''1d'' (timestamp_int (epoch_plus 50)) 4
     \<lparr>all_candles = [], current_chunk_start_timestamp = timestamp_int (epoch_plus 0),
      requests_made = 0\<rparr> broken_page
   \<and> broken_page \<noteq> []
   \<and> py_getitem (last broken_page) ''time'' = Inl KeyError
   \<and> pagination_loop (fixed_exchange broken_page) ''BTCUSD'' ''1d'' (timestamp_int (epoch_plus 50)) 4
       \<lparr>all_candles = [], current_chunk_start_timestamp = timestamp_int (epoch_plus 0),
        requests_made = 0\<rparr>
     = Some \<lparr>all_candles = broken_page, current_chunk_start_timestamp = timestamp_int (epoch_plus 0),
             requests_made = Suc 0\<rparr>
   \<and> get_ohlc_data_paginated seconds_to_datetime (fixed_exchange broken_page) ''BTCUSD'' ''1d''
       (epoch_plus 0) (epoch_plus 50) 4
     = Some (assemble_table seconds_to_datetime (epoch_plus 0) (epoch_plus 50) broken_page)"
proof -
  have a: "fetches_page (fixed_exchange broken_page) ''BTCUSD'' ''1d'' (timestamp_int (epoch_plus 50)) 4
     \<lparr>all_candles = [], current_chunk_start_timestamp = timestamp_int (epoch_plus 0),
      requests_made = 0\<rparr> broken_page"
    by code_simp
  have b: "broken_page \<noteq> []"
    by code_simp
  have c: "py_getitem (last broken_page) ''time'' = Inl KeyError"
    by code_simp
  from raising_page_is_kept [OF a b c, where to_datetime = seconds_to_datetime
      and start_time_dt = "epoch_plus 0" and end_time_dt = "epoch_plus 50"] a b c
  show ?thesis by simp
qed

lemma bounded_full_pages_continue:
  assumes "pages_within_limit http limit_per_request"
    and "full_pages_advance http limit_per_request"
  shows "continuing_pages_advance http limit_per_request"
  unfolding continuing_pages_advance_def
proof (intro allI impI)
  fix k params page t
  assume a: "p_limit params = limit_per_request \<and> page_of (http k params) = Some page \<and> page \<noteq> []
        \<and> limit_per_request \<le> int (length page) \<and> last_time page = Inr t"
  with assms(1) have "int (length page) \<le> limit_per_request"
    unfolding pages_within_limit_def by blast
  with a have "int (length page) = limit_per_request"
    by simp
  with a assms(2) show "p_start params \<le> t"
    unfolding full_pages_advance_def by blast
qed

lemma capped_exchange_advances:
  "continuing_pages_advance (capped_exchange cap available) limit_per_request"
proof -
  have "p_start params \<le> t"
    if p: "page_of (capped_exchange cap available k params) = Some page" and ne: "page \<noteq> []"
      and lt: "last_time page = Inr t" for k params page t
  proof -
    define xs where "xs = take (min cap (nat (p_limit params)))
          (filter (\<lambda>t. p_start params \<le> t \<and> t \<le> p_end params) available)"
    from p have page: "page = map candle xs"
      by (simp add: page_of_def capped_exchange_def page_response_def response_json_def
          raise_for_status_def result_list_def xs_def)
    with ne have "xs \<noteq> []" by simp
    then have "last page = candle (last xs)" and "last xs \<in> set xs"
      by (simp_all add: page last_map)
    with lt have "t = last xs" and "last xs \<in> set xs"
      by (simp_all add: last_time_def candle_def)
    moreover have "set xs \<subseteq> {t. p_start params \<le> t}"
      unfolding xs_def using set_take_subset by fastforce
    ultimately show ?thesis by blast
  qed
  then show ?thesis
    unfolding continuing_pages_advance_def by blast
qed

lemma capped_exchange_full_pages_advance:
  "full_pages_advance (capped_exchange cap available) limit_per_request"
  using capped_exchange_advances [of cap available limit_per_request]
  unfolding continuing_pages_advance_def full_pages_advance_def
  by (metis order_refl)

lemma capped_exchange_within_limit:
  assumes "0 \<le> limit_per_request"
  shows "pages_within_limit (capped_exchange cap available) limit_per_request"
  unfolding pages_within_limit_def
proof (intro allI impI)
  fix k params page
  assume a: "p_limit params = limit_per_request
             \<and> page_of (capped_exchange cap available k params) = Some page"
  then have "page = map candle (take (min cap (nat (p_limit params)))
          (filter (\<lambda>t. p_start params \<le> t \<and> t \<le> p_end params) available))"
    by (auto simp: page_of_def capped_exchange_def page_response_def response_json_def
        raise_for_status_def result_list_def)
  then have "length page \<le> nat (p_limit params)"
    by simp
  with a assms show "int (length page) \<le> limit_per_request"
    by linarith
qed

text \<open>
  C9. With candle pages bounded by the requested limit, as the data model has them: if every
  full-size page, of exactly \<open>limit_per_request\<close> candles, has a last candle whose time is at
  least the cursor that requested it, then each pass that goes on moves the cursor strictly
  forward and leaves it at or below the overall end, the loop returns from every state, and
  \<open>get_ohlc_data_paginated\<close> returns.
\<close>

theorem pagination_terminates:
  assumes "pages_within_limit http limit_per_request"
    and "full_pages_advance http limit_per_request"
  shows "(\<exists>s'. pagination_loop http symbol resolution overall_end_timestamp limit_per_request s = Some s')
       \<and> get_ohlc_data_paginated to_datetime http symbol resolution start_time_dt end_time_dt
            limit_per_request \<noteq> None
       \<and> (chunk_try http symbol resolution overall_end_timestamp limit_per_request s = (s1, Inr Continue)
            \<longrightarrow> current_chunk_start_timestamp s < current_chunk_start_timestamp s1
              \<and> current_chunk_start_timestamp s1 \<le> overall_end_timestamp)"
proof -
  have adv: "continuing_pages_advance http limit_per_request"
    using assms by (rule bounded_full_pages_continue)
  have "get_ohlc_data_paginated to_datetime http symbol resolution start_time_dt end_time_dt
            limit_per_request \<noteq> None"
    using loop_terminates [OF adv, of symbol resolution "timestamp_int end_time_dt"
        "\<lparr>all_candles = [], current_chunk_start_timestamp = timestamp_int start_time_dt,
          requests_made = 0\<rparr>"]
    by (auto simp: get_ohlc_data_paginated_def Let_def)
  with loop_terminates [OF adv] chunk_try_Continue_advances [OF adv] show ?thesis
    by blast
qed

theorem pagination_terminates_witness:
  "pages_within_limit (capped_exchange 4 ten_days) 4
   \<and> full_pages_advance (capped_exchange 4 ten_days) 4
   \<and> (\<exists>s'. pagination_loop (capped_exchange 4 ten_days) ''BTCUSD'' ''1d'' 1704931199 4
             \<lparr>all_candles = [], current_chunk_start_timestamp = 1704067200, requests_made = 0\<rparr>
           = Some s')
   \<and> get_ohlc_data_paginated seconds_to_datetime (capped_exchange 4 ten_days) ''BTCUSD'' ''1d''
        window_start window_end 4 \<noteq> None
   \<and> chunk_try (capped_exchange 4 ten_days) ''BTCUSD'' ''1d'' 1704931199 4
        \<lparr>all_candles = [], current_chunk_start_timestamp = 1704067200, requests_made = 0\<rparr>
      = (\<lparr>all_candles = map candle (take 4 ten_days), current_chunk_start_timestamp = 1704326401,
           requests_made = Suc 0\<rparr>, Inr Continue)
   \<and> (1704067200 :: int) < 1704326401 \<and> (1704326401 :: int) \<le> 1704931199"
proof -
  have b: "pages_within_limit (capped_exchange 4 ten_days) 4"
    by (rule capped_exchange_within_limit) simp
  have a: "full_pages_advance (capped_exchange 4 ten_days) 4"
    by (rule capped_exchange_full_pages_advance)
  note t = pagination_terminates [OF b a, where symbol = "''BTCUSD''" and resolution = "''1d''"
      and overall_end_timestamp = 1704931199
      and s = "\<lparr>all_candles = [], current_chunk_start_timestamp = 1704067200, requests_made = 0\<rparr>"
      and to_datetime = seconds_to_datetime and start_time_dt = window_start
      and end_time_dt = window_end
      and ?s1.0 = "\<lparr>all_candles = map candle (take 4 ten_days),
        current_chunk_start_timestamp = 1704326401, requests_made = Suc 0\<rparr>"]
  from t a b ten_days_step1 show ?thesis by simp
qed

section \<open>Properties of the assembled table\<close>

lemma drop_seen_fresh:
  "r \<in> set (drop_seen seen c rs) \<Longrightarrow> cell_at r c \<notin> set seen"
proof (induction rs arbitrary: seen)
  case Nil
  then show ?case by simp
next
  case (Cons x rs)
  show ?case
  proof (cases "cell_at x c \<in> set seen")
    case True
    with Cons show ?thesis by simp
  next
    case False
    with Cons.prems have "r = x \<or> r \<in> set (drop_seen (cell_at x c # seen) c rs)" by simp
    then show ?thesis
    proof
      assume "r = x" with False show ?thesis by simp
    next
      assume "r \<in> set (drop_seen (cell_at x c # seen) c rs)"
      from Cons.IH [OF this] show ?thesis by simp
    qed
  qed
qed

lemma drop_seen_distinct:
  "distinct (map (\<lambda>r. cell_at r c) (drop_seen seen c rs))"
proof (induction rs arbitrary: seen)
  case Nil
  then show ?case by simp
next
  case (Cons x rs)
  have "cell_at r c \<noteq> cell_at x c" if "r \<in> set (drop_seen (cell_at x c # seen) c rs)" for r
    using drop_seen_fresh [OF that] by simp
  then have "cell_at x c \<notin> (\<lambda>r. cell_at r c) ` set (drop_seen (cell_at x c # seen) c rs)"
    by (metis imageE)
  with Cons show ?case by simp
qed

lemma in_window_Timestamp:
  "in_window a b x \<Longrightarrow> \<exists>n. x = Timestamp n \<and> 1000 * epoch_micros a \<le> n \<and> n \<le> 1000 * epoch_micros b"
  by (cases x) (auto simp: in_window_def)

lemma window_rows_sorted:
  fixes R :: "row list" and key :: "row \<Rightarrow> cell" and a b :: datetime
  assumes d: "distinct (map key R)"
  defines "L \<equiv> filter (\<lambda>r. in_window a b (key r))
                 (sort_key (\<lambda>r. cell_key (key r)) (filter (\<lambda>r. \<not> missing (key r)) R)
                  @ filter (\<lambda>r. missing (key r)) R)"
  shows "\<exists>ns. map key L = map Timestamp ns \<and> sorted_wrt (<) ns
           \<and> (\<forall>n \<in> set ns. 1000 * epoch_micros a \<le> n \<and> n \<le> 1000 * epoch_micros b)"
proof -
  define S where "S = sort_key (\<lambda>r. cell_key (key r)) (filter (\<lambda>r. \<not> missing (key r)) R)"
  define ns where "ns = map (\<lambda>r. case key r of Timestamp n \<Rightarrow> n | _ \<Rightarrow> 0) L"
  have "\<not> (missing (key r) \<and> in_window a b (key r))" for r
    by (auto dest!: in_window_Timestamp)
  then have no_missing: "filter (\<lambda>r. in_window a b (key r)) (filter (\<lambda>r. missing (key r)) R) = []"
    by (metis (mono_tags, lifting) filter_False filter_filter)
  have L: "L = filter (\<lambda>r. in_window a b (key r)) S"
    by (simp only: L_def S_def filter_append no_missing append_Nil2)
  have ts: "\<exists>n. key r = Timestamp n \<and> 1000 * epoch_micros a \<le> n \<and> n \<le> 1000 * epoch_micros b"
    if "r \<in> set L" for r
    using that by (auto simp: L dest: in_window_Timestamp)
  have ts': "key r = Timestamp (case key r of Timestamp n \<Rightarrow> n | _ \<Rightarrow> 0)" if "r \<in> set L" for r
    using ts [OF that] by auto
  have keys: "map key L = map Timestamp ns"
    unfolding ns_def using ts' by simp
  have bounds: "\<forall>n \<in> set ns. 1000 * epoch_micros a \<le> n \<and> n \<le> 1000 * epoch_micros b"
    unfolding ns_def using ts by fastforce
  have "distinct R \<and> inj_on key (set R)"
    using d by (simp add: distinct_map)
  then have "distinct S \<and> inj_on key (set S)"
    by (auto simp: S_def inj_on_def)
  then have "distinct L \<and> inj_on key (set L)"
    by (auto simp: L inj_on_def)
  then have "distinct (map key L)"
    by (simp add: distinct_map)
  then have dn: "distinct ns"
    by (simp add: keys distinct_map)
  have "sorted (map (\<lambda>r. cell_key (key r)) S)"
    by (simp add: S_def)
  then have "sorted (map (\<lambda>r. cell_key (key r)) L)"
    unfolding L by (rule sorted_filter)
  moreover have "map (\<lambda>r. cell_key (key r)) L = map (of_int :: int \<Rightarrow> rat) ns"
    unfolding ns_def using ts by fastforce
  ultimately have "sorted (map (of_int :: int \<Rightarrow> rat) ns)"
    by simp
  then have "sorted ns"
    by (simp add: sorted_wrt_map)
  with dn have "sorted_wrt (<) ns"
    by (simp add: strict_sorted_iff)
  with keys bounds show ?thesis by blast
qed

lemma assemble_table_rows:
  assumes "assemble_table to_datetime a b cs = Inr tbl" and "cs \<noteq> []"
  shows "\<exists>R. distinct (map (\<lambda>r. cell_at r ''time'') R)
     \<and> columns tbl = [''time'', ''open'', ''high'', ''low'', ''close'', ''volume'']
     \<and> rows tbl = map (\<lambda>r. map (\<lambda>c. (c, cell_at r c)) [''time'', ''open'', ''high'', ''low'', ''close'', ''volume''])
        (filter (\<lambda>r. in_window a b (cell_at r ''time''))
                 (sort_key (\<lambda>r. cell_key (cell_at r ''time'')) (filter (\<lambda>r. \<not> missing (cell_at r ''time'')) R)
                  @ filter (\<lambda>r. missing (cell_at r ''time'')) R))"
proof -
  from assms obtain dicts raw stamps where
    t: "select_columns
          ((sort_values ''time'' True
              (drop_duplicates ''time'' (set_column (DataFrame dicts) ''time'' stamps)))
           \<lparr>rows := filter (\<lambda>r. in_window a b (cell_at r ''time''))
               (rows (sort_values ''time'' True
                  (drop_duplicates ''time'' (set_column (DataFrame dicts) ''time'' stamps))))\<rparr>)
          [''time'', ''open'', ''high'', ''low'', ''close'', ''volume''] = Inr tbl"
    by (auto simp: assemble_table_def Let_def split: option.splits sum.splits)
  let ?R = "drop_seen [] ''time'' (rows (set_column (DataFrame dicts) ''time'' stamps))"
  have "distinct (map (\<lambda>r. cell_at r ''time'') ?R)"
    by (rule drop_seen_distinct)
  moreover from t have "columns tbl = [''time'', ''open'', ''high'', ''low'', ''close'', ''volume'']
     \<and> rows tbl = map (\<lambda>r. map (\<lambda>c. (c, cell_at r c)) [''time'', ''open'', ''high'', ''low'', ''close'', ''volume''])
        (filter (\<lambda>r. in_window a b (cell_at r ''time''))
                 (sort_key (\<lambda>r. cell_key (cell_at r ''time'')) (filter (\<lambda>r. \<not> missing (cell_at r ''time'')) ?R)
                  @ filter (\<lambda>r. missing (cell_at r ''time'')) ?R))"
    by (auto simp: select_columns_def drop_duplicates_def sort_values_def Let_def split: if_splits)
  ultimately show ?thesis by blast
qed

text \<open>
  C1. Whenever \<open>get_ohlc_data_paginated\<close> returns a table, the times of its rows are proper
  timestamps in strictly ascending order, no timestamp occurs twice, and every one lies between
  \<open>start_time_dt\<close> and \<open>end_time_dt\<close> inclusive, whatever the exchange answered.
\<close>

theorem ohlc_table_ascending_in_window:
  assumes "get_ohlc_data_paginated to_datetime http symbol resolution start_time_dt end_time_dt
             limit_per_request = Some (Inr tbl)"
  shows "\<exists>ns. map (\<lambda>r. cell_at r ''time'') (rows tbl) = map Timestamp ns
           \<and> sorted_wrt (<) ns \<and> distinct ns
           \<and> (\<forall>n \<in> set ns. 1000 * epoch_micros start_time_dt \<le> n
                            \<and> n \<le> 1000 * epoch_micros end_time_dt)"
proof -
  from assms obtain cs where a: "assemble_table to_datetime start_time_dt end_time_dt cs = Inr tbl"
    by (auto simp: get_ohlc_data_paginated_def Let_def split: option.splits)
  show ?thesis
  proof (cases "cs = []")
    case True
    with a have "rows tbl = []" by (auto simp: assemble_table_def empty_frame_def)
    then show ?thesis by simp
  next
    case False
    from assemble_table_rows [OF a False] obtain R where
      d: "distinct (map (\<lambda>r. cell_at r ''time'') R)"
      and r: "rows tbl = map (\<lambda>r. map (\<lambda>c. (c, cell_at r c)) [''time'', ''open'', ''high'', ''low'', ''close'', ''volume''])
        (filter (\<lambda>r. in_window start_time_dt end_time_dt (cell_at r ''time''))
                 (sort_key (\<lambda>r. cell_key (cell_at r ''time'')) (filter (\<lambda>r. \<not> missing (cell_at r ''time'')) R)
                  @ filter (\<lambda>r. missing (cell_at r ''time'')) R))"
      by blast
    have "map (\<lambda>r. cell_at r ''time'') (rows tbl) =
          map (\<lambda>r. cell_at r ''time'')
        (filter (\<lambda>r. in_window start_time_dt end_time_dt (cell_at r ''time''))
                 (sort_key (\<lambda>r. cell_key (cell_at r ''time'')) (filter (\<lambda>r. \<not> missing (cell_at r ''time'')) R)
                  @ filter (\<lambda>r. missing (cell_at r ''time'')) R))"
      unfolding r by (simp add: cell_at_def o_def)
    with window_rows_sorted [OF d, of start_time_dt end_time_dt] show ?thesis
      by (auto simp: strict_sorted_iff)
  qed
qed

theorem ohlc_table_ascending_in_window_witness:
  "get_ohlc_data_paginated seconds_to_datetime (capped_exchange 4 ten_days) ''BTCUSD'' ''1d''
     window_start window_end 4 = Some (Inr ten_day_table)
   \<and> (\<exists>ns. map (\<lambda>r. cell_at r ''time'') (rows ten_day_table) = map Timestamp ns
           \<and> sorted_wrt (<) ns \<and> distinct ns
           \<and> (\<forall>n \<in> set ns. 1000 * epoch_micros window_start \<le> n
                            \<and> n \<le> 1000 * epoch_micros window_end))"
proof -
  have h: "get_ohlc_data_paginated seconds_to_datetime (capped_exchange 4 ten_days) ''BTCUSD'' ''1d''
     window_start window_end 4 = Some (Inr ten_day_table)"
    by (simp add: get_ohlc_data_paginated_def ten_days_timestamps ten_days_loop ten_days_assemble)
  from ohlc_table_ascending_in_window [OF h] h show ?thesis by blast
qed

section \<open>Properties of the interactive input\<close>

lemma symbol_find:
  "get_user_input_symbol A ls =
     (case find (\<lambda>l. upper (strip l) \<in> A) ls of None \<Rightarrow> Inl EOFError | Some l \<Rightarrow> Inr (upper (strip l)))"
  by (induction ls) (simp_all add: Let_def)

text \<open>
  C8. For every sequence of typed lines, \<open>get_user_input_symbol\<close> returns only the stripped and
  uppercased form of a typed line that is in the set of available symbols; a line whose
  normalised form is not in the set is passed over and the next line is read; the result is the
  normalised form of the first line that is in the set.
\<close>

theorem symbol_prompt_accepts_only_members:
  "(get_user_input_symbol available_symbols lines = Inr s
      \<longrightarrow> s \<in> available_symbols \<and> (\<exists>line \<in> set lines. s = upper (strip line)))
   \<and> (upper (strip line) \<notin> available_symbols
      \<longrightarrow> get_user_input_symbol available_symbols (line # lines)
          = get_user_input_symbol available_symbols lines)
   \<and> (upper (strip line) \<in> available_symbols
      \<longrightarrow> get_user_input_symbol available_symbols (line # lines) = Inr (upper (strip line)))
   \<and> get_user_input_symbol available_symbols lines =
       (case find (\<lambda>l. upper (strip l) \<in> available_symbols) lines of
          None \<Rightarrow> Inl EOFError
        | Some l \<Rightarrow> Inr (upper (strip l)))"
proof -
  have "get_user_input_symbol available_symbols lines = Inr s
          \<Longrightarrow> s \<in> available_symbols \<and> (\<exists>line \<in> set lines. s = upper (strip line))"
    by (induction lines) (auto simp: Let_def split: if_splits)
  then show ?thesis
    by (simp add: symbol_find Let_def)
qed

theorem symbol_prompt_witness:
  "get_user_input_symbol {''BTCUSD'', ''ETHUSD''} [''dogeusd'', '' ethusd  '', ''BTCUSD''] = Inr ''ETHUSD''
   \<and> ''ETHUSD'' \<in> {''BTCUSD'', ''ETHUSD''}
   \<and> (\<exists>line \<in> set [''dogeusd'', '' ethusd  '', ''BTCUSD'']. ''ETHUSD'' = upper (strip line))
   \<and> upper (strip ''dogeusd'') \<notin> {''BTCUSD'', ''ETHUSD''}
   \<and> upper (strip '' ethusd  '') \<in> {''BTCUSD'', ''ETHUSD''}"
proof -
  have a: "upper (strip ''dogeusd'') \<notin> {''BTCUSD'', ''ETHUSD''}"
    by code_simp
  have b: "upper (strip '' ethusd  '') = ''ETHUSD''"
    by code_simp
  have c: "get_user_input_symbol {''BTCUSD'', ''ETHUSD''} [''dogeusd'', '' ethusd  '', ''BTCUSD'']
           = get_user_input_symbol {''BTCUSD'', ''ETHUSD''} ['' ethusd  '', ''BTCUSD'']"
    using a symbol_prompt_accepts_only_members
      [of "{''BTCUSD'', ''ETHUSD''}" "['' ethusd  '', ''BTCUSD'']" "''ETHUSD''" "''dogeusd''"]
    by blast
  have d: "get_user_input_symbol {''BTCUSD'', ''ETHUSD''} ['' ethusd  '', ''BTCUSD''] = Inr ''ETHUSD''"
    using b symbol_prompt_accepts_only_members
      [of "{''BTCUSD'', ''ETHUSD''}" "[''BTCUSD'']" "''ETHUSD''" "'' ethusd  ''"]
    by simp
  from c d have e: "get_user_input_symbol {''BTCUSD'', ''ETHUSD''} [''dogeusd'', '' ethusd  '', ''BTCUSD'']
           = Inr ''ETHUSD''"
    by simp
  from e symbol_prompt_accepts_only_members
      [of "{''BTCUSD'', ''ETHUSD''}" "[''dogeusd'', '' ethusd  '', ''BTCUSD'']" "''ETHUSD''" "''x''"]
  have f: "''ETHUSD'' \<in> {''BTCUSD'', ''ETHUSD''}
           \<and> (\<exists>line \<in> set [''dogeusd'', '' ethusd  '', ''BTCUSD'']. ''ETHUSD'' = upper (strip line))"
    by blast
  from a b e f show ?thesis by simp
qed

lemma date_range_rejected:
  "years_rejected clk sy ey \<Longrightarrow> date_range_of_years clk sy ey = Inr None"
  by (auto simp: years_rejected_def date_range_of_years_def)

lemma date_range_accepted:
  "\<not> years_rejected clk sy ey \<Longrightarrow> local_year clk \<le> 9999 \<Longrightarrow>
   date_range_of_years clk sy ey =
     Inr (Some (jan_1 sy, if dt_greater (dec_31 ey) (utc_now clk) then end_of_day (utc_now clk) else dec_31 ey))"
  by (auto simp: years_rejected_def date_range_of_years_def make_datetime_def jan_1_def dec_31_def
      end_of_day_def Let_def)

text \<open>
  What lines 245 to 275 do with a pair of years, with the clock's year at most 9999: the pair is
  rejected, and the prompt repeated, if either year is outside 1900 to the current year or the
  start year is after the end year. Otherwise start is January 1st 00:00:00 UTC of the start year
  (also for a start year before 2020), and end is December 31st 23:59:59 UTC of the end year,
  unless that is later than the current UTC time: then end is 23:59:59 of the current UTC day.
\<close>

lemma date_range_of_accepted_years:
  assumes "clocks i = clk" and "local_year clk \<le> 9999"
  shows "(years_rejected clk start_year end_year \<longrightarrow>
            date_range_of_years clk start_year end_year = Inr None
            \<and> get_user_input_date_range clocks i (Some start_year # Some end_year # lines)
              = get_user_input_date_range clocks (Suc i) lines)
       \<and> (\<not> years_rejected clk start_year end_year \<longrightarrow>
            date_range_of_years clk start_year end_year =
              Inr (Some (jan_1 start_year,
                         if dt_greater (dec_31 end_year) (utc_now clk) then end_of_day (utc_now clk)
                         else dec_31 end_year))
            \<and> get_user_input_date_range clocks i (Some start_year # Some end_year # lines)
              = Some (jan_1 start_year,
                         if dt_greater (dec_31 end_year) (utc_now clk) then end_of_day (utc_now clk)
                         else dec_31 end_year))"
proof (intro conjI impI)
  assume r: "years_rejected clk start_year end_year"
  show "date_range_of_years clk start_year end_year = Inr None"
    using r by (rule date_range_rejected)
  then show "get_user_input_date_range clocks i (Some start_year # Some end_year # lines)
              = get_user_input_date_range clocks (Suc i) lines"
    using assms(1) by (subst get_user_input_date_range.simps) simp
next
  assume a: "\<not> years_rejected clk start_year end_year"
  show *: "date_range_of_years clk start_year end_year =
              Inr (Some (jan_1 start_year,
                         if dt_greater (dec_31 end_year) (utc_now clk) then end_of_day (utc_now clk)
                         else dec_31 end_year))"
    using a assms(2) by (rule date_range_accepted)
  show "get_user_input_date_range clocks i (Some start_year # Some end_year # lines)
              = Some (jan_1 start_year,
                         if dt_greater (dec_31 end_year) (utc_now clk) then end_of_day (utc_now clk)
                         else dec_31 end_year)"
    using assms(1) * by (subst get_user_input_date_range.simps) simp
qed

lemma date_range_of_accepted_years_example:
  "years_rejected june_clock 2025 2025
   \<and> date_range_of_years june_clock 2025 2025 = Inr None
   \<and> \<not> years_rejected june_clock 2019 2024
   \<and> date_range_of_years june_clock 2019 2024 =
       Inr (Some (jan_1 2019, \<lparr>year = 2024, month = 6, day = 15, hour = 23, minute = 59, second = 59,
                  microsecond = 0\<rparr>))
   \<and> date_range_of_years june_clock 2019 2023 = Inr (Some (jan_1 2019, dec_31 2023))
   \<and> get_user_input_date_range (\<lambda>i. june_clock) 0 [Some 2025, Some 2025, Some 2019, Some 2023]
       = Some (jan_1 2019, dec_31 2023)"
proof -
  have c: "(\<lambda>i::nat. june_clock) 0 = june_clock" "(\<lambda>i::nat. june_clock) (Suc 0) = june_clock"
    "local_year june_clock \<le> 9999"
    by (simp_all add: june_clock_def)
  have r: "years_rejected june_clock 2025 2025"
    by (simp add: years_rejected_def june_clock_def)
  have a: "\<not> years_rejected june_clock 2019 2024" "\<not> years_rejected june_clock 2019 2023"
    by (simp_all add: years_rejected_def june_clock_def)
  have g: "dt_greater (dec_31 2024) (utc_now june_clock)" "\<not> dt_greater (dec_31 2023) (utc_now june_clock)"
    "end_of_day (utc_now june_clock) = \<lparr>year = 2024, month = 6, day = 15, hour = 23, minute = 59, second = 59,
                  microsecond = 0\<rparr>"
    by (simp_all add: dt_greater_def dt_fields_def dec_31_def june_clock_def end_of_day_def)
  note t1 = date_range_of_accepted_years [OF c(1) c(3), where start_year = 2025 and end_year = 2025
      and lines = "[Some 2019, Some 2023]"]
  note t2 = date_range_of_accepted_years [OF c(2) c(3), where start_year = 2019 and end_year = 2023
      and lines = "[]"]
  note t3 = date_range_of_accepted_years [OF c(1) c(3), where start_year = 2019 and end_year = 2024
      and lines = "[]"]
  from r a g t1 t2 t3 show ?thesis by simp
qed

text \<open>
  C5. The claim, like the comment at line 269 (\<^verbatim>\<open>Ensure end_date_obj doesn't exceed current time
  to avoid requesting future data\<close>), has an end that exceeds the current time clamped to the
  current moment. The code does not do that: for the years 2024 and 2024 entered on 2024-06-15 at
  10:30:00 UTC the pair is accepted, December 31st is later than the current time, and the end
  returned is 23:59:59 of 2024-06-15, which is not the current time and still exceeds it.
\<close>

theorem date_range_end_exceeds_now:
  "\<not> years_rejected june_clock 2024 2024
   \<and> dt_greater (dec_31 2024) (utc_now june_clock)
   \<and> date_range_of_years june_clock 2024 2024 =
       Inr (Some (jan_1 2024, \<lparr>year = 2024, month = 6, day = 15, hour = 23, minute = 59, second = 59,
                  microsecond = 0\<rparr>))
   \<and> \<lparr>year = 2024, month = 6, day = 15, hour = 23, minute = 59, second = 59, microsecond = 0\<rparr>
       \<noteq> utc_now june_clock
   \<and> dt_greater \<lparr>year = 2024, month = 6, day = 15, hour = 23, minute = 59, second = 59,
                 microsecond = 0\<rparr> (utc_now june_clock)"
  by (simp add: years_rejected_def june_clock_def dec_31_def jan_1_def dt_greater_def dt_fields_def
      date_range_of_years_def make_datetime_def)

text \<open>The same lines can return an end before the start: in a time zone ahead of UTC, early on
  2025-01-01 local time, the year 2025 passes the check against the local year, and the end is
  the end of the UTC day, 2024-12-31.\<close>

lemma date_range_end_before_start:
  "\<not> years_rejected new_year_clock 2025 2025
   \<and> date_range_of_years new_year_clock 2025 2025 =
       Inr (Some (jan_1 2025, \<lparr>year = 2024, month = 12, day = 31, hour = 23, minute = 59,
                  second = 59, microsecond = 0\<rparr>))
   \<and> dt_greater (jan_1 2025) \<lparr>year = 2024, month = 12, day = 31, hour = 23, minute = 59,
                  second = 59, microsecond = 0\<rparr>"
  by (simp add: years_rejected_def new_year_clock_def dec_31_def jan_1_def dt_greater_def
      dt_fields_def date_range_of_years_def make_datetime_def)

section \<open>The ten-day example\<close>

text \<open>
  C3. Every pass of the loop that goes on has fetched a non-empty page and leaves the cursor at
  the time of the page's last candle plus one. For ten available daily candles, an exchange that
  returns at most 4 candles per call and \<open>limit_per_request = 4\<close>: the loop makes exactly 3
  requests, which return pages of 4, 4 and 2 candles, the second and third request starting one
  second after the last candle of the page before; the table has exactly 10 rows, one for each
  of the ten days.
\<close>

theorem cursor_moves_past_last_candle:
  "(chunk_try http symbol resolution overall_end_timestamp limit_per_request s = (s1, Inr Continue)
     \<longrightarrow> (\<exists>page t.
            page_of (http (requests_made s)
                       \<lparr>p_symbol = symbol, p_resolution = resolution,
                        p_start = current_chunk_start_timestamp s,
                        p_end = overall_end_timestamp, p_limit = limit_per_request\<rparr>) = Some page
            \<and> page \<noteq> [] \<and> last_time page = Inr t
            \<and> current_chunk_start_timestamp s1 = t + 1
            \<and> all_candles s1 = all_candles s @ page
            \<and> requests_made s1 = Suc (requests_made s)))
   \<and> length ten_days = 10
   \<and> pagination_loop (capped_exchange 4 ten_days) ''BTCUSD'' ''1d'' (timestamp_int window_end) 4
        \<lparr>all_candles = [], current_chunk_start_timestamp = timestamp_int window_start,
         requests_made = 0\<rparr>
      = Some \<lparr>all_candles = map candle ten_days, current_chunk_start_timestamp = 1704844801,
              requests_made = 3\<rparr>
   \<and> page_of (capped_exchange 4 ten_days 0
        \<lparr>p_symbol = ''BTCUSD'', p_resolution = ''1d'', p_start = 1704067200,
         p_end = 1704931199, p_limit = 4\<rparr>) = Some (map candle (take 4 ten_days))
   \<and> page_of (capped_exchange 4 ten_days 1
        \<lparr>p_symbol = ''BTCUSD'', p_resolution = ''1d'', p_start = 1704326400 + 1,
         p_end = 1704931199, p_limit = 4\<rparr>) = Some (map candle (take 4 (drop 4 ten_days)))
   \<and> page_of (capped_exchange 4 ten_days 2
        \<lparr>p_symbol = ''BTCUSD'', p_resolution = ''1d'', p_start = 1704672000 + 1,
         p_end = 1704931199, p_limit = 4\<rparr>) = Some (map candle (drop 8 ten_days))
   \<and> length (map candle (take 4 ten_days)) = 4
   \<and> length (map candle (take 4 (drop 4 ten_days))) = 4
   \<and> length (map candle (drop 8 ten_days)) = 2
   \<and> get_ohlc_data_paginated seconds_to_datetime (capped_exchange 4 ten_days) ''BTCUSD'' ''1d''
        window_start window_end 4 = Some (Inr ten_day_table)
   \<and> length (rows ten_day_table) = 10
   \<and> map (\<lambda>r. cell_at r ''time'') (rows ten_day_table)
        = map (\<lambda>t. Timestamp (t * 1000000000)) ten_days"
proof -
  have step: "\<exists>page t.
            page_of (http (requests_made s)
                       \<lparr>p_symbol = symbol, p_resolution = resolution,
                        p_start = current_chunk_start_timestamp s,
                        p_end = overall_end_timestamp, p_limit = limit_per_request\<rparr>) = Some page
            \<and> page \<noteq> [] \<and> last_time page = Inr t
            \<and> current_chunk_start_timestamp s1 = t + 1
            \<and> all_candles s1 = all_candles s @ page
            \<and> requests_made s1 = Suc (requests_made s)"
    if c: "chunk_try http symbol resolution overall_end_timestamp limit_per_request s
             = (s1, Inr Continue)"
  proof -
    from chunk_try_Continue [OF c] obtain page v t where
      r: "(case response_json
                 (http (requests_made s)
                    \<lparr>p_symbol = symbol, p_resolution = resolution,
                     p_start = current_chunk_start_timestamp s,
                     p_end = overall_end_timestamp, p_limit = limit_per_request\<rparr>) of
            Inl e \<Rightarrow> False
          | Inr json_response \<Rightarrow> result_list json_response = Inr (Some page))"
      and p: "page \<noteq> []" "py_getitem (last page) ''time'' = Inr v" "as_int v = Inr t"
      and s1: "s1 = s\<lparr>requests_made := Suc (requests_made s),
                       all_candles := all_candles s @ page,
                       current_chunk_start_timestamp := t + 1\<rparr>"
      by blast
    have "page_of (http (requests_made s)
                       \<lparr>p_symbol = symbol, p_resolution = resolution,
                        p_start = current_chunk_start_timestamp s,
                        p_end = overall_end_timestamp, p_limit = limit_per_request\<rparr>) = Some page"
      using r by (auto simp: page_of_def split: sum.splits)
    moreover have "last_time page = Inr t"
      using p by (simp add: last_time_def)
    ultimately show ?thesis
      using p(1) s1 by auto
  qed
  have loop: "pagination_loop (capped_exchange 4 ten_days) ''BTCUSD'' ''1d'' (timestamp_int window_end) 4
        \<lparr>all_candles = [], current_chunk_start_timestamp = timestamp_int window_start,
         requests_made = 0\<rparr>
      = Some \<lparr>all_candles = map candle ten_days, current_chunk_start_timestamp = 1704844801,
              requests_made = 3\<rparr>"
    by (simp only: ten_days_timestamps ten_days_loop)
  have tbl: "get_ohlc_data_paginated seconds_to_datetime (capped_exchange 4 ten_days) ''BTCUSD'' ''1d''
        window_start window_end 4 = Some (Inr ten_day_table)"
    by (simp add: get_ohlc_data_paginated_def ten_days_timestamps ten_days_loop ten_days_assemble)
  have pages:
    "page_of (capped_exchange 4 ten_days 0
        \<lparr>p_symbol = ''BTCUSD'', p_resolution = ''1d'', p_start = 1704067200,
         p_end = 1704931199, p_limit = 4\<rparr>) = Some (map candle (take 4 ten_days))"
    "page_of (capped_exchange 4 ten_days 1
        \<lparr>p_symbol = ''BTCUSD'', p_resolution = ''1d'', p_start = 1704326400 + 1,
         p_end = 1704931199, p_limit = 4\<rparr>) = Some (map candle (take 4 (drop 4 ten_days)))"
    "page_of (capped_exchange 4 ten_days 2
        \<lparr>p_symbol = ''BTCUSD'', p_resolution = ''1d'', p_start = 1704672000 + 1,
         p_end = 1704931199, p_limit = 4\<rparr>) = Some (map candle (drop 8 ten_days))"
    by code_simp+
  have sizes:
    "length ten_days = 10"
    "length (map candle (take 4 ten_days)) = 4"
    "length (map candle (take 4 (drop 4 ten_days))) = 4"
    "length (map candle (drop 8 ten_days)) = 2"
    "length (rows ten_day_table) = 10"
    by code_simp+
  have rows10: "map (\<lambda>r. cell_at r ''time'') (rows ten_day_table)
        = map (\<lambda>t. Timestamp (t * 1000000000)) ten_days"
    by code_simp
  from step loop tbl pages sizes rows10 show ?thesis
    by (intro conjI impI)
qed

theorem cursor_moves_past_last_candle_witness:
  "chunk_try (capped_exchange 4 ten_days) ''BTCUSD'' ''1d'' 1704931199 4
        \<lparr>all_candles = [], current_chunk_start_timestamp = 1704067200, requests_made = 0\<rparr>
      = (\<lparr>all_candles = map candle (take 4 ten_days), current_chunk_start_timestamp = 1704326401,
           requests_made = Suc 0\<rparr>, Inr Continue)
   \<and> (\<exists>page t.
          page_of (capped_exchange 4 ten_days 0
                     \<lparr>p_symbol = ''BTCUSD'', p_resolution = ''1d'', p_start = 1704067200,
                      p_end = 1704931199, p_limit = 4\<rparr>) = Some page
          \<and> page \<noteq> [] \<and> last_time page = Inr t \<and> 1704326401 = t + 1
          \<and> map candle (take 4 ten_days) = [] @ page)"
proof -
  note t = cursor_moves_past_last_candle [where http = "capped_exchange 4 ten_days"
      and symbol = "''BTCUSD''" and resolution = "''1d''" and overall_end_timestamp = 1704931199
      and limit_per_request = 4
      and s = "\<lparr>all_candles = [], current_chunk_start_timestamp = 1704067200, requests_made = 0\<rparr>"
      and ?s1.0 = "\<lparr>all_candles = map candle (take 4 ten_days),
           current_chunk_start_timestamp = 1704326401, requests_made = Suc 0\<rparr>"]
  from t ten_days_step1 show ?thesis by simp
qed

section \<open>The empty table\<close>

text \<open>
  C6. If the pagination run accumulates no candles, and in particular if the first request is
  answered with an empty page, \<open>get_ohlc_data_paginated\<close> returns \<^verbatim>\<open>pd.DataFrame()\<close> and raises
  nothing: a table without rows and without columns, so with no column outside
  \<^verbatim>\<open>time, open, high, low, close, volume\<close>.
\<close>

theorem empty_run_gives_empty_table:
  "(pagination_loop http symbol resolution (timestamp_int end_time_dt) limit_per_request
       \<lparr>all_candles = [], current_chunk_start_timestamp = timestamp_int start_time_dt,
        requests_made = 0\<rparr> = Some s
     \<and> all_candles s = []
     \<longrightarrow> get_ohlc_data_paginated to_datetime http symbol resolution start_time_dt end_time_dt
           limit_per_request = Some (Inr empty_frame))
   \<and> (page_of (http 0 \<lparr>p_symbol = symbol, p_resolution = resolution,
                        p_start = timestamp_int start_time_dt,
                        p_end = timestamp_int end_time_dt, p_limit = limit_per_request\<rparr>) = Some []
     \<longrightarrow> get_ohlc_data_paginated to_datetime http symbol resolution start_time_dt end_time_dt
           limit_per_request = Some (Inr empty_frame))
   \<and> rows empty_frame = []
   \<and> set (columns empty_frame) \<subseteq> {''time'', ''open'', ''high'', ''low'', ''close'', ''volume''}"
proof -
  let ?init = "\<lparr>all_candles = [], current_chunk_start_timestamp = timestamp_int start_time_dt,
        requests_made = 0\<rparr>"
  let ?oe = "timestamp_int end_time_dt"
  have a: "get_ohlc_data_paginated to_datetime http symbol resolution start_time_dt end_time_dt
           limit_per_request = Some (Inr empty_frame)"
    if "pagination_loop http symbol resolution ?oe limit_per_request ?init = Some s"
      and "all_candles s = []" for s
    using that by (simp add: get_ohlc_data_paginated_def assemble_table_def)
  have b: "\<exists>s. pagination_loop http symbol resolution ?oe limit_per_request ?init = Some s
             \<and> all_candles s = []"
    if p: "page_of (http 0 \<lparr>p_symbol = symbol, p_resolution = resolution,
                        p_start = timestamp_int start_time_dt,
                        p_end = ?oe, p_limit = limit_per_request\<rparr>) = Some []"
  proof (cases "timestamp_int start_time_dt \<le> ?oe")
    case False
    then show ?thesis by (subst pagination_loop.simps) simp
  next
    case True
    have "\<exists>s r. chunk_try http symbol resolution ?oe limit_per_request ?init = (s, r)
            \<and> all_candles s = [] \<and> r \<noteq> Inr Continue"
      using p
      by (auto simp: chunk_try_def page_of_def Let_def split: sum.splits option.splits)
    then obtain s r where "chunk_try http symbol resolution ?oe limit_per_request ?init = (s, r)"
      and "all_candles s = []" and "r \<noteq> Inr Continue"
      by blast
    then show ?thesis
      using True
      by (subst pagination_loop.simps) (auto split: sum.splits flow.splits)
  qed
  from a b show ?thesis
    by (auto simp: empty_frame_def)
qed

theorem empty_run_gives_empty_table_witness:
  "page_of (fixed_exchange [] 0 \<lparr>p_symbol = ''BTCUSD'', p_resolution = ''1d'',
                        p_start = timestamp_int (epoch_plus 0),
                        p_end = timestamp_int (epoch_plus 50), p_limit = 2000\<rparr>) = Some []
   \<and> pagination_loop (fixed_exchange []) ''BTCUSD'' ''1d'' (timestamp_int (epoch_plus 50)) 2000
       \<lparr>all_candles = [], current_chunk_start_timestamp = timestamp_int (epoch_plus 0),
        requests_made = 0\<rparr>
      = Some \<lparr>all_candles = [], current_chunk_start_timestamp = 0, requests_made = 1\<rparr>
   \<and> get_ohlc_data_paginated seconds_to_datetime (fixed_exchange []) ''BTCUSD'' ''1d''
        (epoch_plus 0) (epoch_plus 50) 2000 = Some (Inr empty_frame)"
proof -
  have p: "page_of (fixed_exchange [] 0 \<lparr>p_symbol = ''BTCUSD'', p_resolution = ''1d'',
                        p_start = timestamp_int (epoch_plus 0),
                        p_end = timestamp_int (epoch_plus 50), p_limit = 2000\<rparr>) = Some []"
    by code_simp
  have c: "chunk_try (fixed_exchange []) ''BTCUSD'' ''1d'' (timestamp_int (epoch_plus 50)) 2000
       \<lparr>all_candles = [], current_chunk_start_timestamp = timestamp_int (epoch_plus 0),
        requests_made = 0\<rparr>
      = (\<lparr>all_candles = [], current_chunk_start_timestamp = 0, requests_made = 1\<rparr>, Inr Break)"
    by code_simp
  have t: "timestamp_int (epoch_plus 0) \<le> timestamp_int (epoch_plus 50)"
    by code_simp
  have l: "pagination_loop (fixed_exchange []) ''BTCUSD'' ''1d'' (timestamp_int (epoch_plus 50)) 2000
       \<lparr>all_candles = [], current_chunk_start_timestamp = timestamp_int (epoch_plus 0),
        requests_made = 0\<rparr>
      = Some \<lparr>all_candles = [], current_chunk_start_timestamp = 0, requests_made = 1\<rparr>"
    using t by (subst pagination_loop.simps) (simp add: c)
  from empty_run_gives_empty_table [where http = "fixed_exchange []" and symbol = "''BTCUSD''"
      and resolution = "''1d''" and start_time_dt = "epoch_plus 0" and end_time_dt = "epoch_plus 50"
      and limit_per_request = 2000 and to_datetime = seconds_to_datetime
      and s = "\<lparr>all_candles = [], current_chunk_start_timestamp = 0, requests_made = 1\<rparr>"] p l
  show ?thesis by simp
qed

section \<open>Properties of the top-N ranking\<close>

lemma cell_at_mk: "c \<in> set cols \<Longrightarrow> cell_at (map (\<lambda>c. (c, f c)) cols) c = f c"
  by (simp add: cell_at_def map_of_map_restrict)

lemma cell_at_update: "cell_at (AList.update k v r) c = (if c = k then v else cell_at r c)"
  by (simp add: cell_at_def update_conv')

lemma DataFrame_rows:
  "rows (DataFrame ds) = map (\<lambda>d. map (\<lambda>c. (c, ticker_cell d c)) (columns (DataFrame ds))) ds"
  by (simp add: DataFrame_def Let_def ticker_cell_def)

lemma DataFrame_columns: "set (columns (DataFrame ds)) = (\<Union>d \<in> set ds. fst ` set d)"
  by (auto simp: DataFrame_def Let_def unique_def)

lemma map2_same: "map2 f (map g xs) (map h xs) = map (\<lambda>x. f (g x) (h x)) xs"
  by (induction xs) auto

lemma top_n_unfold:
  assumes "tickers \<noteq> []" and v: "''turnover_usd'' \<in> set (columns (DataFrame tickers))"
  shows "get_top_n_symbols_by_volume to_numeric tickers n =
     Inr \<lparr>columns = filter (\<lambda>c. c \<in> set (columns (DataFrame tickers))) desired_cols,
          rows = map (\<lambda>r. map (\<lambda>c. (c, cell_at r c))
                         (filter (\<lambda>c. c \<in> set (columns (DataFrame tickers))) desired_cols))
                   (if 0 \<le> n then take (nat n) (ranked_rows to_numeric tickers)
                    else take (length (ranked_rows to_numeric tickers) - nat (- n))
                           (ranked_rows to_numeric tickers))\<rparr>"
proof -
  let ?df = "DataFrame tickers"
  let ?num = "\<lambda>c. case to_numeric c of None \<Rightarrow> NaN | Some x \<Rightarrow> Num x"
  have raw: "get_column ?df ''turnover_usd'' = Inr (map (\<lambda>r. cell_at r ''turnover_usd'') (rows ?df))"
    using v by (simp add: get_column_def)
  have r1: "rows (set_column ?df ''turnover_usd'' (map ?num (map (\<lambda>r. cell_at r ''turnover_usd'') (rows ?df))))
        = map (\<lambda>d. AList.update ''turnover_usd'' (?num (ticker_cell d ''turnover_usd''))
                       (map (\<lambda>c. (c, ticker_cell d c)) (columns ?df))) tickers"
    using v by (simp add: set_column_def map2_same DataFrame_rows o_def cell_at_mk)
  have c1: "columns (set_column ?df ''turnover_usd'' (map ?num (map (\<lambda>r. cell_at r ''turnover_usd'') (rows ?df))))
        = columns ?df"
    using v by (simp add: set_column_def)
  have nm: "filter (\<lambda>r. missing (cell_at r ''turnover_usd''))
              (filter (\<lambda>r. \<not> missing (cell_at r ''turnover_usd'')) xs) = []" for xs :: "row list"
    by (induction xs) auto
  have idem: "filter (\<lambda>r. \<not> missing (cell_at r ''turnover_usd''))
              (filter (\<lambda>r. \<not> missing (cell_at r ''turnover_usd'')) xs)
            = filter (\<lambda>r. \<not> missing (cell_at r ''turnover_usd'')) xs" for xs :: "row list"
    by (induction xs) auto
  show ?thesis
    unfolding get_top_n_symbols_by_volume_def Let_def desired_cols_def [symmetric]
    using assms
    by (simp add: raw select_columns_def head_def sort_values_def dropna_def c1 r1 nm idem
        ranked_rows_def Let_def del: map_map)
qed

lemma has_field_columns: "has_field ds c \<longleftrightarrow> c \<in> set (columns (DataFrame ds))"
  by (auto simp: has_field_def DataFrame_columns list_ex_iff map_of_eq_None_iff)

lemma descending_keys:
  fixes k :: "'a \<Rightarrow> rat"
  shows "map k (sort_key (\<lambda>r. - k r) P) = rev (sort (map k P))"
proof -
  let ?L = "map k (sort_key (\<lambda>r. - k r) P)"
  have "sorted (map (\<lambda>r. - k r) (sort_key (\<lambda>r. - k r) P))"
    by (rule sorted_sort_key)
  then have "sorted (map uminus ?L)"
    by (simp add: o_def)
  then have s: "sorted (rev ?L)"
    by (simp add: sorted_wrt_map sorted_wrt_rev)
  have "mset (rev ?L) = mset (map k P)"
    by simp
  from properties_for_sort [OF this s] have "sort (map k P) = rev ?L" .
  then show ?thesis by simp
qed

lemma ranked_rows_keys:
  "map (\<lambda>r. cell_at r ''turnover_usd'') (ranked_rows to_numeric tickers)
     = map Num (rev (sort (numeric_turnovers to_numeric tickers)))"
proof -
  let ?row = "\<lambda>d. AList.update ''turnover_usd''
                       (case to_numeric (ticker_cell d ''turnover_usd'') of None \<Rightarrow> NaN | Some x \<Rightarrow> Num x)
                       (map (\<lambda>c. (c, ticker_cell d c)) (columns (DataFrame tickers)))"
  let ?P = "filter (\<lambda>r. \<not> missing (cell_at r ''turnover_usd'')) (map ?row ds)"
  have num: "map (\<lambda>r. cell_key (cell_at r ''turnover_usd''))
                (filter (\<lambda>r. \<not> missing (cell_at r ''turnover_usd'')) (map ?row ds))
             = List.map_filter (\<lambda>d. to_numeric (ticker_cell d ''turnover_usd'')) ds" for ds
    by (induction ds) (auto simp: cell_at_update map_filter_simps split: option.splits)
  have isnum: "cell_at r ''turnover_usd'' = Num (cell_key (cell_at r ''turnover_usd''))"
    if "r \<in> set (ranked_rows to_numeric tickers)" for r
    using that by (auto simp: ranked_rows_def cell_at_update split: option.splits)
  have "map (\<lambda>r. cell_at r ''turnover_usd'') (ranked_rows to_numeric tickers)
      = map Num (map (\<lambda>r. cell_key (cell_at r ''turnover_usd'')) (ranked_rows to_numeric tickers))"
    using isnum by simp
  also have "map (\<lambda>r. cell_key (cell_at r ''turnover_usd'')) (ranked_rows to_numeric tickers)
      = rev (sort (numeric_turnovers to_numeric tickers))"
    unfolding ranked_rows_def numeric_turnovers_def
    by (simp only: descending_keys num)
  finally show ?thesis .
qed

lemma ranked_rows_origin:
  assumes "r \<in> set (ranked_rows to_numeric tickers)"
  shows "\<exists>d \<in> set tickers. \<exists>x. to_numeric (ticker_cell d ''turnover_usd'') = Some x
           \<and> (\<forall>c \<in> set (columns (DataFrame tickers)).
                 cell_at r c = (if c = ''turnover_usd'' then Num x else ticker_cell d c))"
proof -
  from assms obtain d where d: "d \<in> set tickers"
    and r: "r = AList.update ''turnover_usd''
                  (case to_numeric (ticker_cell d ''turnover_usd'') of None \<Rightarrow> NaN | Some x \<Rightarrow> Num x)
                  (map (\<lambda>c. (c, ticker_cell d c)) (columns (DataFrame tickers)))"
    and nm: "\<not> missing (cell_at r ''turnover_usd'')"
    by (auto simp: ranked_rows_def)
  from nm r obtain x where x: "to_numeric (ticker_cell d ''turnover_usd'') = Some x"
    by (auto simp: cell_at_update split: option.splits)
  have "\<forall>c \<in> set (columns (DataFrame tickers)).
          cell_at r c = (if c = ''turnover_usd'' then Num x else ticker_cell d c)"
    using r x by (simp add: cell_at_update cell_at_mk)
  with d x show ?thesis by blast
qed

text \<open>
  C7. For every list of tickers, every reading of \<^verbatim>\<open>pd.to_numeric\<close> and every \<open>n\<close> that is not
  negative, \<open>get_top_n_symbols_by_volume\<close> returns a table and raises nothing; the table has at
  most \<open>n\<close> rows; their turnovers are numbers in descending order; every row comes from a ticker
  whose turnover reads as a number, so tickers with a non-numeric turnover are left out; when
  there are tickers and one of them has the turnover field, the columns are the display columns
  that some ticker has, and the turnovers are the \<open>n\<close> largest numeric turnovers; when there are
  no tickers or none has the turnover field, the table is the empty one.
\<close>

theorem top_n_by_volume:
  assumes "0 \<le> n"
  shows "\<exists>tbl. get_top_n_symbols_by_volume to_numeric tickers n = Inr tbl
      \<and> int (length (rows tbl)) \<le> n
      \<and> (\<exists>xs. map (\<lambda>r. cell_at r ''turnover_usd'') (rows tbl) = map Num xs \<and> sorted_wrt (\<ge>) xs)
      \<and> (\<forall>r \<in> set (rows tbl). \<exists>d \<in> set tickers. \<exists>x.
            to_numeric (ticker_cell d ''turnover_usd'') = Some x
            \<and> (\<forall>c \<in> set (columns tbl).
                  cell_at r c = (if c = ''turnover_usd'' then Num x else ticker_cell d c)))
      \<and> (tickers \<noteq> [] \<and> has_field tickers ''turnover_usd'' \<longrightarrow>
            columns tbl = filter (has_field tickers) desired_cols
            \<and> map (\<lambda>r. cell_at r ''turnover_usd'') (rows tbl)
                = map Num (take (nat n) (rev (sort (numeric_turnovers to_numeric tickers)))))
      \<and> (tickers = [] \<or> \<not> has_field tickers ''turnover_usd'' \<longrightarrow> tbl = empty_frame)"
proof (cases "tickers \<noteq> [] \<and> has_field tickers ''turnover_usd''")
  case False
  then have "get_top_n_symbols_by_volume to_numeric tickers n = Inr empty_frame"
    by (auto simp: get_top_n_symbols_by_volume_def Let_def has_field_columns)
  with False assms show ?thesis
    by (auto simp: empty_frame_def)
next
  case True
  then have ne: "tickers \<noteq> []" and v: "''turnover_usd'' \<in> set (columns (DataFrame tickers))"
    by (simp_all add: has_field_columns)
  let ?cols = "filter (\<lambda>c. c \<in> set (columns (DataFrame tickers))) desired_cols"
  let ?top = "take (nat n) (ranked_rows to_numeric tickers)"
  let ?tbl = "\<lparr>columns = ?cols, rows = map (\<lambda>r. map (\<lambda>c. (c, cell_at r c)) ?cols) ?top\<rparr>"
  have res: "get_top_n_symbols_by_volume to_numeric tickers n = Inr ?tbl"
    using top_n_unfold [OF ne v, of to_numeric n] assms by simp
  have vin: "''turnover_usd'' \<in> set ?cols"
    using v by (simp add: desired_cols_def)
  have proj: "cell_at (map (\<lambda>c. (c, cell_at r c)) ?cols) c = cell_at r c" if "c \<in> set ?cols" for r c
    using that by (rule cell_at_mk)
  have keys: "map (\<lambda>r. cell_at r ''turnover_usd'') (rows ?tbl)
                = map Num (take (nat n) (rev (sort (numeric_turnovers to_numeric tickers))))"
    using ranked_rows_keys [of to_numeric tickers]
    by (simp add: o_def proj [OF vin] take_map [symmetric] del: take_map)
  have len: "int (length (rows ?tbl)) \<le> n"
    using assms by simp
  have "sorted_wrt (\<ge>) (rev (sort (numeric_turnovers to_numeric tickers)))"
    by (simp add: sorted_wrt_rev)
  then have desc: "sorted_wrt (\<ge>) (take (nat n) (rev (sort (numeric_turnovers to_numeric tickers))))"
    by (rule sorted_wrt_take)
  have origin: "\<exists>d \<in> set tickers. \<exists>x.
            to_numeric (ticker_cell d ''turnover_usd'') = Some x
            \<and> (\<forall>c \<in> set (columns ?tbl).
                  cell_at r c = (if c = ''turnover_usd'' then Num x else ticker_cell d c))"
    if "r \<in> set (rows ?tbl)" for r
  proof -
    from that obtain r0 where r0: "r0 \<in> set (ranked_rows to_numeric tickers)"
      and r: "r = map (\<lambda>c. (c, cell_at r0 c)) ?cols"
      by (auto dest: in_set_takeD)
    from ranked_rows_origin [OF r0] obtain d x where d: "d \<in> set tickers"
      and x: "to_numeric (ticker_cell d ''turnover_usd'') = Some x"
      and c: "\<forall>c \<in> set (columns (DataFrame tickers)).
                 cell_at r0 c = (if c = ''turnover_usd'' then Num x else ticker_cell d c)"
      by blast
    have "\<forall>c \<in> set (columns ?tbl).
             cell_at r c = (if c = ''turnover_usd'' then Num x else ticker_cell d c)"
      using c by (auto simp: r cell_at_mk)
    with d x show ?thesis by blast
  qed
  have cols: "columns ?tbl = filter (has_field tickers) desired_cols"
    by (simp add: has_field_columns [abs_def])
  from res len keys desc origin cols True show ?thesis
    by (intro exI [of _ ?tbl]) (simp only: simp_thms, blast)
qed

theorem top_n_by_volume_witness:
  "(0 :: int) \<le> 2
   \<and> example_tickers \<noteq> [] \<and> has_field example_tickers ''turnover_usd''
   \<and> get_top_n_symbols_by_volume ints_to_numeric example_tickers 2 = Inr example_top
   \<and> int (length (rows example_top)) \<le> 2
   \<and> (\<exists>xs. map (\<lambda>r. cell_at r ''turnover_usd'') (rows example_top) = map Num xs
            \<and> sorted_wrt (\<ge>) xs)
   \<and> columns example_top = filter (has_field example_tickers) desired_cols
   \<and> map (\<lambda>r. cell_at r ''turnover_usd'') (rows example_top)
       = map Num (take (nat 2) (rev (sort (numeric_turnovers ints_to_numeric example_tickers))))
   \<and> get_top_n_symbols_by_volume ints_to_numeric [] 2 = Inr empty_frame"
proof -
  have n: "(0 :: int) \<le> 2"
    by simp
  have e: "example_tickers \<noteq> []" "has_field example_tickers ''turnover_usd''"
    by code_simp+
  have r: "get_top_n_symbols_by_volume ints_to_numeric example_tickers 2 = Inr example_top"
    by code_simp
  from top_n_by_volume [OF n, of ints_to_numeric "[]"]
  have z: "get_top_n_symbols_by_volume ints_to_numeric [] 2 = Inr empty_frame"
    by auto
  from top_n_by_volume [OF n, of ints_to_numeric example_tickers] r e n z show ?thesis
    by auto
qed

end
